theory Spec2Isabelle
  imports Main "HOL-Library.Word"
begin

section \<open>Go strings and the standard library functions the action calls\<close>

text \<open>
  A Go string is a sequence of bytes, so it is a \<open>string\<close> (a list of 8-bit characters):
  \<open>len\<close> is \<open>length\<close> and the slice \<open>s[:7]\<close> is \<open>take 7 s\<close>, which panics in Go
  when \<open>len(s) < 7\<close>; each use below writes that panic out.

  Run-time panics of the program are values of the type \<open>panic\<close>; a function that can
  panic returns \<open>panic + 'a\<close>, with \<open>Inl\<close> the panic. Output written with
  \<open>fmt.Printf\<close> and \<open>fmt.Println\<close> is logging only and is not modelled.
\<close>

datatype panic =
    SliceBoundsOutOfRange
  | NilPointerDereference
  | ErrInvalidSemVer
  | ErrInvalidPrerelease
  | ClientError string

definition isASCII :: "char \<Rightarrow> bool" where
  "isASCII c = ((of_char c :: nat) < 128)"

definition isUpper :: "char \<Rightarrow> bool" where
  "isUpper c = ((65 :: nat) \<le> of_char c \<and> (of_char c :: nat) \<le> 90)"

definition isLower :: "char \<Rightarrow> bool" where
  "isLower c = ((97 :: nat) \<le> of_char c \<and> (of_char c :: nat) \<le> 122)"

definition isDigit :: "char \<Rightarrow> bool" where
  "isDigit c = ((48 :: nat) \<le> of_char c \<and> (of_char c :: nat) \<le> 57)"

text \<open>\<open>c += 'a' - 'A'\<close> on an upper-case ASCII byte.\<close>

definition lowerByte :: "char \<Rightarrow> char" where
  "lowerByte c = (if isUpper c then char_of ((of_char c :: nat) + 32) else c)"

text \<open>
  The functions of Go's standard library and of the imported packages whose source is
  not part of this repository, and that cannot be written down from first principles
  here (Unicode tables, a generated parser, a regular expression over version strings,
  the quicksort of long slices),
  are the fields of one record that every function using them takes as its first
  argument:
  \<^item> \<open>unicodeToLower\<close>: \<open>strings.ToLower\<close> on a string with a byte \<open>\<ge> 0x80\<close>;
  \<^item> \<open>unicodeEqualFold\<close>: \<open>strings.EqualFold\<close> on two strings of which one starts
    with a byte \<open>\<ge> 0x80\<close>;
  \<^item> \<open>titleEnglish\<close>: \<open>cases.Title(language.English).String\<close>;
  \<^item> \<open>semverNewVersion\<close>: \<open>semver.NewVersion\<close>, \<open>None\<close> when it returns an error;
  \<^item> \<open>parseConventional\<close>: \<open>Parse\<close> of the machine built by
    \<open>parser.NewMachine(conventionalcommits.WithTypes(conventionalcommits.TypesConventional))\<close>
    followed by the type assertion to \<open>*ConventionalCommit\<close>; \<open>None\<close> when the
    parse returns an error or the assertion fails. \<open>NewAction\<close> stores a machine
    built by the same call in the field \<open>parser\<close>, so both uses are this function;
  \<^item> \<open>pdqsortReleases\<close>: \<open>sort.Slice\<close> with the comparison of
    \<open>filterAndSortReleasesForComponent\<close> on a slice of more than 12 releases, where
    Go 1.19 runs a pattern-defeating quicksort.
\<close>

record Version =
  major :: "64 word"
  minor :: "64 word"
  patch :: "64 word"
  pre :: string
  metadata :: string
  original :: string

record ConventionalCommit =
  Type :: string
  Description :: string
  Scope :: "string option"
  Exclamation :: bool
  Footers :: "(string \<times> string list) list"

text \<open>
  A \<open>time.Time\<close> is the number of nanoseconds since the start of the Unix epoch (an
  unbounded integer: the range limits of \<open>time.Time\<close> are not modelled), a
  \<open>time.Duration\<close> a number of nanoseconds. \<open>Unix\<close> is the number of whole seconds.
\<close>

type_synonym Time = int
type_synonym Duration = int

text \<open>
  The getters of go-github return the empty string for a nil string pointer, so the
  string fields are plain strings. \<open>PublishedAt\<close> is read without a getter and stays a
  pointer: \<open>None\<close> is nil. Of a repository commit, \<open>Message\<close> is
  \<open>GetCommit().GetMessage()\<close> and \<open>AuthorLogin\<close> is \<open>GetAuthor().GetLogin()\<close>.
\<close>

record RepositoryRelease =
  TagName :: string
  Name :: string
  TargetCommitish :: string
  GenerateReleaseNotes :: bool
  Body :: string
  Prerelease :: bool
  PublishedAt :: "Time option"

record RepositoryCommit =
  SHA :: string
  HTMLURL :: string
  Message :: string
  AuthorLogin :: string

record Lib =
  unicodeToLower :: "string \<Rightarrow> string"
  unicodeEqualFold :: "string \<Rightarrow> string \<Rightarrow> bool"
  titleEnglish :: "string \<Rightarrow> string"
  semverNewVersion :: "string \<Rightarrow> Version option"
  parseConventional :: "string \<Rightarrow> ConventionalCommit option"
  pdqsortReleases :: "RepositoryRelease list \<Rightarrow> RepositoryRelease list"

text \<open>
  \<open>strings.ToLower\<close>: an ASCII-only string without an upper-case letter is returned
  as it is, an ASCII-only string is mapped byte by byte, any other string goes through
  the Unicode tables.
\<close>

definition ToLower :: "Lib \<Rightarrow> string \<Rightarrow> string" where
  "ToLower lib s =
     (if list_all isASCII s
      then (if list_ex isUpper s then map lowerByte s else s)
      else unicodeToLower lib s)"

text \<open>
  \<open>strings.EqualFold\<close>: while both strings start with an ASCII byte the two bytes
  are compared, equal or an upper-case letter and its lower-case form; when one string
  is used up, both must be.
\<close>

fun EqualFold :: "Lib \<Rightarrow> string \<Rightarrow> string \<Rightarrow> bool" where
  "EqualFold lib (sr # s) (tr # t) =
     (if isASCII sr \<and> isASCII tr then
        (if tr = sr then EqualFold lib s t
         else if (of_char sr :: nat) < of_char tr then
           (if isUpper sr \<and> (of_char tr :: nat) = of_char sr + 32 then EqualFold lib s t
            else False)
         else
           (if isUpper tr \<and> (of_char sr :: nat) = of_char tr + 32 then EqualFold lib s t
            else False))
      else unicodeEqualFold lib (sr # s) (tr # t))"
| "EqualFold lib s t = (s = t)"

definition HasPrefix :: "string \<Rightarrow> string \<Rightarrow> bool" where
  "HasPrefix s prefix = (length prefix \<le> length s \<and> take (length prefix) s = prefix)"

definition TrimPrefix :: "string \<Rightarrow> string \<Rightarrow> string" where
  "TrimPrefix s prefix = (if HasPrefix s prefix then drop (length prefix) s else s)"

text \<open>
  \<open>strings.Replace(s, old, new, 1)\<close>: the first occurrence of \<open>old\<close> in \<open>s\<close> is
  replaced; \<open>s\<close> is returned when there is none.
\<close>

fun replaceFirst :: "string \<Rightarrow> string \<Rightarrow> string \<Rightarrow> string" where
  "replaceFirst [] old new = (if old = [] then new else [])"
| "replaceFirst (c # s) old new =
     (if HasPrefix (c # s) old then new @ drop (length old) (c # s)
      else c # replaceFirst s old new)"

text \<open>\<open>%d\<close> of an \<open>int64\<close>: the decimal digits, with a minus sign when negative.\<close>

function showNat :: "nat \<Rightarrow> string" where
  "showNat n =
     (if n < 10 then [char_of (48 + n)]
      else showNat (n div 10) @ [char_of (48 + n mod 10)])"
  by pat_completeness auto
termination
  by (relation "measure id") auto

declare showNat.simps [simp del]

definition showInt64 :: "64 word \<Rightarrow> string" where
  "showInt64 w =
     (if sint w < 0 then CHR ''-'' # showNat (nat (- sint w)) else showNat (nat (sint w)))"


section \<open>The semantic version library (github.com/Masterminds/semver, version 1)\<close>

text \<open>
  The package is an external dependency. The struct \<open>Version\<close> and the methods the
  action calls are written here as the package defines them: the three numbers are
  \<open>int64\<close>, \<open>original\<close> is the string the version was parsed from or, after an
  increment or \<open>SetPrerelease\<close>, the new version printed behind the old \<open>v\<close> prefix.
  \<open>IncPatch\<close> on a version with a prerelease label drops the label and keeps the patch
  number.
\<close>

definition zeroVersion :: Version where
  "zeroVersion =
     \<lparr>major = 0, minor = 0, patch = 0, pre = '''', metadata = '''', original = ''''\<rparr>"

definition Version_String :: "Version \<Rightarrow> string" where
  "Version_String v =
     showInt64 (major v) @ ''.'' @ showInt64 (minor v) @ ''.'' @ showInt64 (patch v)
     @ (if pre v \<noteq> '''' then ''-'' @ pre v else '''')
     @ (if metadata v \<noteq> '''' then ''+'' @ metadata v else '''')"

definition originalVPrefix :: "Version \<Rightarrow> string" where
  "originalVPrefix v =
     (if original v \<noteq> '''' \<and> take 1 (original v) = ''v'' then take 1 (original v) else '''')"

definition withOriginal :: "Version \<Rightarrow> Version \<Rightarrow> Version" where
  "withOriginal v vNext = vNext\<lparr>original := originalVPrefix v @ Version_String vNext\<rparr>"

definition IncPatch :: "Version \<Rightarrow> Version" where
  "IncPatch v =
     (if pre v \<noteq> ''''
      then withOriginal v (v\<lparr>metadata := '''', pre := ''''\<rparr>)
      else withOriginal v (v\<lparr>metadata := '''', pre := '''', patch := patch v + 1\<rparr>))"

definition IncMinor :: "Version \<Rightarrow> Version" where
  "IncMinor v =
     withOriginal v (v\<lparr>metadata := '''', pre := '''', patch := 0, minor := minor v + 1\<rparr>)"

definition IncMajor :: "Version \<Rightarrow> Version" where
  "IncMajor v =
     withOriginal v
       (v\<lparr>metadata := '''', pre := '''', patch := 0, minor := 0, major := major v + 1\<rparr>)"

text \<open>
  The prerelease pattern \<open>^([0-9A-Za-z\-]+(\.[0-9A-Za-z\-]+)*)$\<close>: one or more
  non-empty segments of letters, digits and hyphens, separated by dots.
\<close>

fun splitDot :: "string \<Rightarrow> string list" where
  "splitDot [] = [[]]"
| "splitDot (c # cs) =
     (if c = CHR ''.'' then [] # splitDot cs
      else (case splitDot cs of [] \<Rightarrow> [[c]] | seg # segs \<Rightarrow> (c # seg) # segs))"

definition isPrereleaseChar :: "char \<Rightarrow> bool" where
  "isPrereleaseChar c = (isDigit c \<or> isUpper c \<or> isLower c \<or> c = CHR ''-'')"

definition validPrerelease :: "string \<Rightarrow> bool" where
  "validPrerelease s =
     list_all (\<lambda>seg. seg \<noteq> [] \<and> list_all isPrereleaseChar seg) (splitDot s)"

definition SetPrerelease :: "Version \<Rightarrow> string \<Rightarrow> panic + Version" where
  "SetPrerelease v p =
     (if 0 < length p \<and> \<not> validPrerelease p then Inl ErrInvalidPrerelease
      else Inr (withOriginal v (v\<lparr>pre := p\<rparr>)))"

definition MustParse :: "Lib \<Rightarrow> string \<Rightarrow> panic + Version" where
  "MustParse lib v =
     (case semverNewVersion lib v of None \<Rightarrow> Inl ErrInvalidSemVer | Some sv \<Rightarrow> Inr sv)"


section \<open>Conventional commits (github.com/leodido/go-conventionalcommits)\<close>

text \<open>
  The fields of \<open>ConventionalCommit\<close> that the action or the three methods below
  read. A commit is a breaking change when its type is followed by an exclamation mark
  or it has a \<open>breaking-change\<close> footer.
\<close>

definition IsBreakingChange :: "ConventionalCommit \<Rightarrow> bool" where
  "IsBreakingChange c = (Exclamation c \<or> map_of (Footers c) ''breaking-change'' \<noteq> None)"

definition IsFeat :: "ConventionalCommit \<Rightarrow> bool" where
  "IsFeat c = (Type c = ''feat'')"

definition IsFix :: "ConventionalCommit \<Rightarrow> bool" where
  "IsFix c = (Type c = ''fix'')"


section \<open>Times and the GitHub client\<close>

definition Second :: Duration where
  "Second = 1000000000"

definition Millisecond :: Duration where
  "Millisecond = 1000000"

definition startOfEpoch :: Time where
  "startOfEpoch = 0"

definition Time_Add :: "Time \<Rightarrow> Duration \<Rightarrow> Time" where
  "Time_Add t d = t + d"

definition Unix :: "Time \<Rightarrow> int" where
  "Unix t = t div 1000000000"

text \<open>
  The client is the remote repository as the action sees it during one run. Each
  function gets the owner and the repository first, and returns \<open>Inl\<close> with the
  message when the call returns an error:
  \<^item> \<open>ListReleases owner repo page\<close>, 100 releases per page;
  \<^item> \<open>ListCommits owner repo since until sha page\<close>, 100 commits per page;
  \<^item> \<open>GetCommit owner repo sha\<close>: the committer date of the commit, \<open>None\<close> when the
    commit has no committer or the committer has no date;
  \<^item> \<open>CreateRelease owner repo release\<close>: \<open>Some\<close> error, or \<open>None\<close> on success.
  Every call the action makes is appended to a trace, the state that all functions
  using the client pass on.
\<close>

record Client =
  ListReleases :: "string \<Rightarrow> string \<Rightarrow> nat \<Rightarrow> string + RepositoryRelease list"
  ListCommits ::
    "string \<Rightarrow> string \<Rightarrow> Time \<Rightarrow> Time \<Rightarrow> string \<Rightarrow> nat \<Rightarrow> string + RepositoryCommit list"
  GetCommit :: "string \<Rightarrow> string \<Rightarrow> string \<Rightarrow> string + Time option"
  CreateRelease :: "string \<Rightarrow> string \<Rightarrow> RepositoryRelease \<Rightarrow> string option"

datatype call =
    ListReleasesCall string string nat
  | ListCommitsCall string string Time Time string nat
  | GetCommitCall string string string
  | CreateReleaseCall string string RepositoryRelease

record VersioningAction =
  client :: Client
  owner :: string
  repository :: string
  component :: string
  label :: string
  branch :: string
  revision :: string
  initialVersion :: string
  defaultBranch :: string


section \<open>The action (pkg/action.go)\<close>

subsection \<open>Tag prefixes\<close>

definition getComponentPrefix :: "Lib \<Rightarrow> string \<Rightarrow> string" where
  "getComponentPrefix lib c = ToLower lib c @ ''-''"

definition prefixWithComponent :: "Lib \<Rightarrow> string \<Rightarrow> string \<Rightarrow> string" where
  "prefixWithComponent lib c str = getComponentPrefix lib c @ str"

subsection \<open>Releases of the component\<close>

text \<open>
  \<open>sort.Slice\<close> with the comparison \<open>PublishedAt.Unix() > PublishedAt.Unix()\<close>. The
  comparison dereferences \<open>PublishedAt\<close>, and a sort of two or more elements compares
  every element at least once, so it panics exactly when two or more releases match and
  one of them has no publication time. On up to 12 elements \<open>sort.Slice\<close> of Go
  1.19, the version the Dockerfile builds with, runs an insertion sort: each element moves left while it is greater than the element before
  it. On more than 12 elements it runs the quicksort that is a parameter here; what is
  known of its result is what \<open>sort.Slice\<close> promises, \<open>sortsDescending\<close>: the same
  releases, none before one with a later second of publication. Releases of the same
  second come in an order that is not known.
\<close>

definition publishedUnix :: "RepositoryRelease \<Rightarrow> int" where
  "publishedUnix r = (case PublishedAt r of None \<Rightarrow> 0 | Some t \<Rightarrow> Unix t)"

definition insertLeft :: "RepositoryRelease \<Rightarrow> RepositoryRelease list \<Rightarrow> RepositoryRelease list" where
  "insertLeft x sorted_part =
     (let back = rev sorted_part;
          passed = takeWhile (\<lambda>y. publishedUnix x > publishedUnix y) back;
          kept = dropWhile (\<lambda>y. publishedUnix x > publishedUnix y) back
      in rev kept @ [x] @ rev passed)"

definition insertionSort :: "RepositoryRelease list \<Rightarrow> RepositoryRelease list" where
  "insertionSort rs = foldl (\<lambda>sorted_part x. insertLeft x sorted_part) [] rs"

definition sortSlice :: "Lib \<Rightarrow> RepositoryRelease list \<Rightarrow> RepositoryRelease list" where
  "sortSlice lib rs = (if length rs \<le> 12 then insertionSort rs else pdqsortReleases lib rs)"

definition sortsDescending :: "Lib \<Rightarrow> RepositoryRelease list \<Rightarrow> bool" where
  "sortsDescending lib rs =
     (sorted_wrt (\<lambda>x y. publishedUnix y \<le> publishedUnix x) (pdqsortReleases lib rs)
      \<and> set (pdqsortReleases lib rs) = set rs)"

definition filterAndSortReleasesForComponent ::
  "Lib \<Rightarrow> string \<Rightarrow> RepositoryRelease list \<Rightarrow> panic + RepositoryRelease list" where
  "filterAndSortReleasesForComponent lib c releases =
     (let matchingReleases =
            filter (\<lambda>release. HasPrefix (ToLower lib (TagName release)) (getComponentPrefix lib c))
              releases
      in if 2 \<le> length matchingReleases \<and> list_ex (\<lambda>r. PublishedAt r = None) matchingReleases
         then Inl NilPointerDereference
         else Inr (sortSlice lib matchingReleases))"

definition existingVersionOrNew ::
  "Lib \<Rightarrow> string \<Rightarrow> RepositoryRelease list \<Rightarrow> string \<Rightarrow> panic + (Version \<times> bool)" where
  "existingVersionOrNew lib c existingReleases initial =
     (case existingReleases of
        [] \<Rightarrow>
          (case MustParse lib initial of Inl p \<Rightarrow> Inl p | Inr v \<Rightarrow> Inr (v, True))
      | latestRelease # _ \<Rightarrow>
          (case MustParse lib (TrimPrefix (TagName latestRelease) (getComponentPrefix lib c)) of
             Inl p \<Rightarrow> Inl p
           | Inr v \<Rightarrow> Inr (v, False)))"

subsection \<open>Commits of the component\<close>

fun convertAndFilterCommitsForComponent ::
  "Lib \<Rightarrow> string \<Rightarrow> RepositoryCommit list \<Rightarrow> ConventionalCommit list" where
  "convertAndFilterCommitsForComponent lib c [] = []"
| "convertAndFilterCommitsForComponent lib c (commit # commits) =
     (case parseConventional lib (Message commit) of
        None \<Rightarrow> convertAndFilterCommitsForComponent lib c commits
      | Some conventionalCommit \<Rightarrow>
          (case Scope conventionalCommit of
             None \<Rightarrow> convertAndFilterCommitsForComponent lib c commits
           | Some scope \<Rightarrow>
               if EqualFold lib scope c
               then conventionalCommit # convertAndFilterCommitsForComponent lib c commits
               else convertAndFilterCommitsForComponent lib c commits))"

subsection \<open>The next version\<close>

text \<open>
  The loop of \<open>newVersion\<close> over the commits, on the three flags
  \<open>(breakingChangesFound, featureChangesFound, fixChangesFound)\<close>: a breaking change
  sets the first flag and leaves the loop.
\<close>

fun scanCommits :: "ConventionalCommit list \<Rightarrow> bool \<times> bool \<times> bool \<Rightarrow> bool \<times> bool \<times> bool" where
  "scanCommits [] flags = flags"
| "scanCommits (commit # commits) (breakingChangesFound, featureChangesFound, fixChangesFound) =
     (if IsBreakingChange commit then (True, featureChangesFound, fixChangesFound)
      else scanCommits commits
             (breakingChangesFound,
              (if IsFeat commit then True else featureChangesFound),
              (if IsFix commit then True else fixChangesFound)))"

text \<open>\<open>SetPrerelease(a.revision[:7])\<close>, with the panic of the slice and of the error.\<close>

definition prereleaseOf :: "VersioningAction \<Rightarrow> Version \<Rightarrow> panic + Version" where
  "prereleaseOf a v =
     (if length (revision a) < 7 then Inl SliceBoundsOutOfRange
      else SetPrerelease v (take 7 (revision a)))"

definition newVersion ::
  "VersioningAction \<Rightarrow> Version \<Rightarrow> ConventionalCommit list \<Rightarrow> bool \<Rightarrow> panic + Version option" where
  "newVersion a currentVersion newCommits firstVersionCreated =
     (if firstVersionCreated then
        (if branch a \<noteq> defaultBranch a then
           (case prereleaseOf a currentVersion of
              Inl p \<Rightarrow> Inl p
            | Inr prereleaseVersion \<Rightarrow> Inr (Some prereleaseVersion))
         else Inr (Some currentVersion))
      else
        (case scanCommits newCommits (False, False, False) of
           (breakingChangesFound, featureChangesFound, fixChangesFound) \<Rightarrow>
             (let nextVersion =
                    (if breakingChangesFound then IncMajor currentVersion
                     else if featureChangesFound then IncMinor currentVersion
                     else if fixChangesFound then IncPatch currentVersion
                     else zeroVersion)
              in if nextVersion = zeroVersion then Inr None
                 else if branch a \<noteq> defaultBranch a then
                   (case prereleaseOf a nextVersion of
                      Inl p \<Rightarrow> Inl p
                    | Inr prereleaseVersion \<Rightarrow> Inr (Some prereleaseVersion))
                 else Inr (Some nextVersion))))"


subsection \<open>The changelog\<close>

definition formatCommitChangelogEntry :: "RepositoryCommit \<Rightarrow> ConventionalCommit \<Rightarrow> panic + string" where
  "formatCommitChangelogEntry commit conventionalCommit =
     (if SHA commit \<noteq> '''' then
        (if length (SHA commit) < 7 then Inl SliceBoundsOutOfRange
         else Inr (''* [`'' @ take 7 (SHA commit) @ ''`]('' @ HTMLURL commit @ '') ''
                   @ Description conventionalCommit @ '' (@'' @ AuthorLogin commit @ '')''
                   @ [CHR 0x0A]))
      else Inr (''* ['' @ HTMLURL commit @ '']('' @ Description conventionalCommit
                @ '') (@'' @ AuthorLogin commit @ '')'' @ [CHR 0x0A]))"

definition releaseNotesTemplate :: string where
  "releaseNotesTemplate =
     [CHR 0x0A]
     @ ''> Below is the changelog for this version. Changes are categorised by the type of change (breaking change, new feature, or bugfix). If there isn't a heading for a type of change, there were no relevant changes.''
     @ [CHR 0x0A] @ ''{breaking}''
     @ [CHR 0x0A] @ ''{features}''
     @ [CHR 0x0A] @ ''{fixes}''
     @ [CHR 0x0A] @ ''{contributors}''
     @ [CHR 0x0A]"

definition breakingChangesHeader :: string where
  "breakingChangesHeader =
     ''### :hammer: Breaking Changes'' @ [CHR 0x0A]
     @ ''_Breaking changes indicate that an existing behaviour or feature no longer works as before. Pay close attention to any listed breaking changes, and make sure they are acknowledged or mitigated before deploying this version._''
     @ [CHR 0x0A]"

definition featuresHeader :: string where
  "featuresHeader =
     ''### :bulb: Features'' @ [CHR 0x0A]
     @ ''_Feature changes contain some new functionality. Existing behaviour should not be affected._''
     @ [CHR 0x0A]"

definition fixesHeader :: string where
  "fixesHeader =
     ''### :construction_worker: Fixes'' @ [CHR 0x0A]
     @ ''_Fixes some unintended behaviour from a previous version. You should familiarise yourself with these changes to understand any problems you may have experienced in previous versions._''
     @ [CHR 0x0A]"

definition contributorsHeader :: string where
  "contributorsHeader =
     ''### :heart_eyes: Contributors'' @ [CHR 0x0A]
     @ ''_These people contributed to this version of the component - thank you! Note: GitHub's auto-generated contributor list may also include contributors to other components._''
     @ [CHR 0x0A]"

text \<open>
  The four string builders and the set of contributors (the keys of the Go map) that
  the loop of \<open>generateReleaseNotes\<close> updates.
\<close>

record builders =
  breakingChangesStr :: string
  featuresStr :: string
  fixesStr :: string
  contributorsStr :: string
  contributors :: "string list"

definition writeEntry :: "bool \<Rightarrow> RepositoryCommit \<Rightarrow> ConventionalCommit \<Rightarrow> string \<Rightarrow> panic + string" where
  "writeEntry wanted commit conventionalCommit builder =
     (if wanted then
        (case formatCommitChangelogEntry commit conventionalCommit of
           Inl p \<Rightarrow> Inl p
         | Inr entry \<Rightarrow> Inr (builder @ entry))
      else Inr builder)"

definition addContributor :: "RepositoryCommit \<Rightarrow> builders \<Rightarrow> builders" where
  "addContributor commit n =
     (if List.member (contributors n) (AuthorLogin commit) then n
      else n\<lparr>contributors := contributors n @ [AuthorLogin commit],
              contributorsStr := contributorsStr n @ ''* @'' @ AuthorLogin commit @ [CHR 0x0A]\<rparr>)"

fun notesLoop :: "Lib \<Rightarrow> VersioningAction \<Rightarrow> RepositoryCommit list \<Rightarrow> builders \<Rightarrow> panic + builders" where
  "notesLoop lib a [] n = Inr n"
| "notesLoop lib a (commit # commits) n =
     (case parseConventional lib (Message commit) of
        None \<Rightarrow> notesLoop lib a commits n
      | Some conventionalCommit \<Rightarrow>
          (case Scope conventionalCommit of
             None \<Rightarrow> notesLoop lib a commits n
           | Some scope \<Rightarrow>
               if EqualFold lib scope (component a) then
                 (case writeEntry (IsBreakingChange conventionalCommit) commit conventionalCommit
                         (breakingChangesStr n) of
                    Inl p \<Rightarrow> Inl p
                  | Inr b \<Rightarrow>
                      (case writeEntry (IsFeat conventionalCommit) commit conventionalCommit
                              (featuresStr n) of
                         Inl p \<Rightarrow> Inl p
                       | Inr f \<Rightarrow>
                           (case writeEntry (IsFix conventionalCommit) commit conventionalCommit
                                   (fixesStr n) of
                              Inl p \<Rightarrow> Inl p
                            | Inr x \<Rightarrow>
                                notesLoop lib a commits
                                  (addContributor commit
                                     (n\<lparr>breakingChangesStr := b, featuresStr := f,
                                         fixesStr := x\<rparr>)))))
               else notesLoop lib a commits n))"

definition fillSection :: "string \<Rightarrow> string \<Rightarrow> string \<Rightarrow> string \<Rightarrow> string" where
  "fillSection template placeholder header builder =
     (if length builder = length header then replaceFirst template placeholder ''''
      else replaceFirst template placeholder builder)"

definition generateReleaseNotes :: "Lib \<Rightarrow> VersioningAction \<Rightarrow> RepositoryCommit list \<Rightarrow> panic + string" where
  "generateReleaseNotes lib a commits =
     (case notesLoop lib a commits
             \<lparr>breakingChangesStr = breakingChangesHeader, featuresStr = featuresHeader,
              fixesStr = fixesHeader, contributorsStr = contributorsHeader,
              contributors = []\<rparr> of
        Inl p \<Rightarrow> Inl p
      | Inr n \<Rightarrow>
          Inr (fillSection
                 (fillSection
                    (fillSection
                       (fillSection releaseNotesTemplate ''{breaking}'' breakingChangesHeader
                          (breakingChangesStr n))
                       ''{features}'' featuresHeader (featuresStr n))
                    ''{fixes}'' fixesHeader (fixesStr n))
                 ''{contributors}'' contributorsHeader (contributorsStr n)))"

subsection \<open>Calls of the client\<close>

text \<open>
  The two listing loops ask for page 1, 2, ... until a page comes back empty. A remote
  that never returns an empty page keeps them running for ever, so they are partial
  functions: \<open>None\<close> is a run that does not return. The result of a run that returns
  is the value or the panic, and the trace. The page number is a natural number (the
  overflow of Go's \<open>int\<close> after \<open>2^63\<close> pages is not modelled).
\<close>

partial_function (option) getAllReleases_loop ::
  "VersioningAction \<Rightarrow> nat \<Rightarrow> RepositoryRelease list \<Rightarrow> call list
    \<Rightarrow> ((panic + RepositoryRelease list) \<times> call list) option" where
  "getAllReleases_loop a page existingReleases tr =
     (case ListReleases (client a) (owner a) (repository a) page of
        Inl err \<Rightarrow>
          Some (Inl (ClientError err), tr @ [ListReleasesCall (owner a) (repository a) page])
      | Inr releases \<Rightarrow>
          if length releases = 0
          then Some (Inr (existingReleases @ releases),
                     tr @ [ListReleasesCall (owner a) (repository a) page])
          else getAllReleases_loop a (page + 1) (existingReleases @ releases)
                 (tr @ [ListReleasesCall (owner a) (repository a) page]))"

declare getAllReleases_loop.simps [code]

definition getAllReleases ::
  "VersioningAction \<Rightarrow> call list \<Rightarrow> ((panic + RepositoryRelease list) \<times> call list) option" where
  "getAllReleases a tr = getAllReleases_loop a 1 [] tr"

partial_function (option) getNewCommits_loop ::
  "VersioningAction \<Rightarrow> Time \<Rightarrow> Time \<Rightarrow> string \<Rightarrow> nat \<Rightarrow> RepositoryCommit list \<Rightarrow> call list
    \<Rightarrow> ((panic + RepositoryCommit list) \<times> call list) option" where
  "getNewCommits_loop a since until br page existingCommits tr =
     (case ListCommits (client a) (owner a) (repository a) since until br page of
        Inl err \<Rightarrow>
          Some (Inl (ClientError err),
                tr @ [ListCommitsCall (owner a) (repository a) since until br page])
      | Inr commits \<Rightarrow>
          if length commits = 0
          then Some (Inr (existingCommits @ commits),
                     tr @ [ListCommitsCall (owner a) (repository a) since until br page])
          else getNewCommits_loop a since until br (page + 1) (existingCommits @ commits)
                 (tr @ [ListCommitsCall (owner a) (repository a) since until br page]))"

declare getNewCommits_loop.simps [code]

definition getNewCommits ::
  "VersioningAction \<Rightarrow> Time option \<Rightarrow> Time \<Rightarrow> string \<Rightarrow> call list
    \<Rightarrow> ((panic + RepositoryCommit list) \<times> call list) option" where
  "getNewCommits a since until br tr =
     (case since of
        None \<Rightarrow> getNewCommits_loop a startOfEpoch until br 1 [] tr
      | Some previous \<Rightarrow> getNewCommits_loop a (Time_Add previous Second) until br 1 [] tr)"

text \<open>\<open>commit.GetCommitter().Date.Time\<close> of the commit that \<open>GetCommit\<close> returns.\<close>

definition committerTime :: "VersioningAction \<Rightarrow> string \<Rightarrow> call list \<Rightarrow> (panic + Time) \<times> call list" where
  "committerTime a sha tr =
     (case GetCommit (client a) (owner a) (repository a) sha of
        Inl err \<Rightarrow> (Inl (ClientError err), tr @ [GetCommitCall (owner a) (repository a) sha])
      | Inr None \<Rightarrow>
          (Inl NilPointerDereference, tr @ [GetCommitCall (owner a) (repository a) sha])
      | Inr (Some t) \<Rightarrow> (Inr t, tr @ [GetCommitCall (owner a) (repository a) sha]))"

definition getCurrentChangeTime :: "VersioningAction \<Rightarrow> call list \<Rightarrow> (panic + Time) \<times> call list" where
  "getCurrentChangeTime a tr = committerTime a (revision a) tr"

definition getPreviousChangeTime ::
  "VersioningAction \<Rightarrow> RepositoryRelease list \<Rightarrow> call list \<Rightarrow> (panic + Time option) \<times> call list" where
  "getPreviousChangeTime a existingReleases tr =
     (case existingReleases of
        [] \<Rightarrow> (Inr None, tr)
      | latestRelease # _ \<Rightarrow>
          (case committerTime a (TargetCommitish latestRelease) tr of
             (Inl p, tr') \<Rightarrow> (Inl p, tr')
           | (Inr commitTime, tr') \<Rightarrow> (Inr (Some commitTime), tr')))"

definition createGitHubRelease ::
  "Lib \<Rightarrow> VersioningAction \<Rightarrow> Version \<Rightarrow> RepositoryCommit list \<Rightarrow> call list
    \<Rightarrow> (panic + unit) \<times> call list" where
  "createGitHubRelease lib a v commits tr =
     (let versionName = ToLower lib (prefixWithComponent lib (component a) (Version_String v));
          releaseTitle =
            (if label a \<noteq> '''' then titleEnglish lib (label a) @ '': '' @ Version_String v
             else titleEnglish lib (component a) @ '': '' @ Version_String v);
          isPrerelease = (branch a \<noteq> defaultBranch a)
      in case generateReleaseNotes lib a commits of
           Inl p \<Rightarrow> (Inl p, tr)
         | Inr releaseNotes \<Rightarrow>
             (let release =
                    \<lparr>TagName = versionName, Name = releaseTitle, TargetCommitish = revision a,
                     GenerateReleaseNotes = False, Body = releaseNotes,
                     Prerelease = isPrerelease, PublishedAt = None\<rparr>
              in case CreateRelease (client a) (owner a) (repository a) release of
                   Some err \<Rightarrow>
                     (Inl (ClientError err),
                      tr @ [CreateReleaseCall (owner a) (repository a) release])
                 | None \<Rightarrow>
                     (Inr (), tr @ [CreateReleaseCall (owner a) (repository a) release])))"

subsection \<open>GenerateVersion\<close>

definition GenerateVersion ::
  "Lib \<Rightarrow> VersioningAction \<Rightarrow> bool \<Rightarrow> call list \<Rightarrow> ((panic + Version option) \<times> call list) option" where
  "GenerateVersion lib a dryRun tr =
     (case getAllReleases a tr of
        None \<Rightarrow> None
      | Some (Inl p, tr1) \<Rightarrow> Some (Inl p, tr1)
      | Some (Inr allReleases, tr1) \<Rightarrow>
     (case filterAndSortReleasesForComponent lib (component a) allReleases of
        Inl p \<Rightarrow> Some (Inl p, tr1)
      | Inr existingReleases \<Rightarrow>
     (case existingVersionOrNew lib (component a) existingReleases (initialVersion a) of
        Inl p \<Rightarrow> Some (Inl p, tr1)
      | Inr (existingVersion, firstVersionCreated) \<Rightarrow>
     (case getPreviousChangeTime a existingReleases tr1 of
        (Inl p, tr2) \<Rightarrow> Some (Inl p, tr2)
      | (Inr previousChangeTime, tr2) \<Rightarrow>
     (case getCurrentChangeTime a tr2 of
        (Inl p, tr3) \<Rightarrow> Some (Inl p, tr3)
      | (Inr currentChangeTime, tr3) \<Rightarrow>
     (case getNewCommits a previousChangeTime (Time_Add currentChangeTime Millisecond)
             (branch a) tr3 of
        None \<Rightarrow> None
      | Some (Inl p, tr4) \<Rightarrow> Some (Inl p, tr4)
      | Some (Inr newCommits, tr4) \<Rightarrow>
     (case newVersion a existingVersion
             (convertAndFilterCommitsForComponent lib (component a) newCommits)
             firstVersionCreated of
        Inl p \<Rightarrow> Some (Inl p, tr4)
      | Inr None \<Rightarrow> Some (Inr None, tr4)
      | Inr (Some v) \<Rightarrow>
          if dryRun then Some (Inr (Some v), tr4)
          else
            (case createGitHubRelease lib a v newCommits tr4 of
               (Inl p, tr5) \<Rightarrow> Some (Inl p, tr5)
             | (Inr _, tr5) \<Rightarrow> Some (Inr (Some v), tr5)))))))))"

text \<open>The releases that a trace asks the remote to create.\<close>

fun createdReleases :: "call list \<Rightarrow> RepositoryRelease list" where
  "createdReleases [] = []"
| "createdReleases (CreateReleaseCall _ _ r # cs) = r # createdReleases cs"
| "createdReleases (_ # cs) = createdReleases cs"

text \<open>The time windows that a trace asks the remote to list commits for.\<close>

fun commitWindows :: "call list \<Rightarrow> (Time \<times> Time) list" where
  "commitWindows [] = []"
| "commitWindows (ListCommitsCall _ _ since until _ _ # cs) = (since, until) # commitWindows cs"
| "commitWindows (_ # cs) = commitWindows cs"


section \<open>The words of the specification\<close>

text \<open>
  The specification gives the entry as \<open>* [shortSHA](url) description (@author)\<close> with
  the SHA cut to 7 characters when the commit has a SHA, and as
  \<open>* [url] description (@author)\<close> when the SHA is empty. This definition follows those
  words, to be compared with \<open>formatCommitChangelogEntry\<close>.
\<close>

definition specChangelogEntry :: "RepositoryCommit \<Rightarrow> ConventionalCommit \<Rightarrow> string" where
  "specChangelogEntry commit conventionalCommit =
     (if SHA commit \<noteq> ''''
      then ''* ['' @ take 7 (SHA commit) @ '']('' @ HTMLURL commit @ '') ''
           @ Description conventionalCommit @ '' (@'' @ AuthorLogin commit @ '')''
      else ''* ['' @ HTMLURL commit @ ''] '' @ Description conventionalCommit
           @ '' (@'' @ AuthorLogin commit @ '')'')"

text \<open>
  In the specification a release matches the component when its tag, in lower case,
  starts with the component in lower case and a hyphen, and the latest matching release
  is a matching release that no matching release was published after. The publication
  times are compared by their seconds, as the code compares them. These two definitions
  follow those words, to be compared with the first release that
  \<open>filterAndSortReleasesForComponent\<close> returns.
\<close>

definition matchesComponent :: "Lib \<Rightarrow> string \<Rightarrow> RepositoryRelease \<Rightarrow> bool" where
  "matchesComponent lib c release =
     HasPrefix (ToLower lib (TagName release)) (ToLower lib c @ ''-'')"

definition latestMatching :: "Lib \<Rightarrow> string \<Rightarrow> RepositoryRelease list \<Rightarrow> RepositoryRelease \<Rightarrow> bool" where
  "latestMatching lib c releases latest =
     (latest \<in> set releases \<and> matchesComponent lib c latest \<and>
      list_all (\<lambda>r. matchesComponent lib c r \<longrightarrow> publishedUnix r \<le> publishedUnix latest)
        releases)"


section \<open>Example runs\<close>

text \<open>
  A component \<open>foo\<close> of the repository \<open>o/r\<close> at revision \<open>abcdef1234\<close>, with the
  initial version \<open>1.0.0\<close> and the default branch \<open>main\<close>. The remote has the given
  releases and commits on its first page and nothing on the later pages; the revision
  was committed at second 2000, the revision \<open>0123456789\<close> at second 1000 and the
  revision \<open>fedcba9876\<close> at second 1500. The library parameters know the version
  strings and commit messages of the examples, and sort long slices by insertion.
\<close>

definition v100 :: Version where
  "v100 = \<lparr>major = 1, minor = 0, patch = 0, pre = '''', metadata = '''', original = ''1.0.0''\<rparr>"

definition v123 :: Version where
  "v123 = \<lparr>major = 1, minor = 2, patch = 3, pre = '''', metadata = '''', original = ''1.2.3''\<rparr>"

definition v130 :: Version where
  "v130 = \<lparr>major = 1, minor = 3, patch = 0, pre = '''', metadata = '''', original = ''1.3.0''\<rparr>"

definition conv :: "string \<Rightarrow> string \<Rightarrow> bool \<Rightarrow> ConventionalCommit" where
  "conv t sc bang =
     \<lparr>Type = t, Description = ''x'', Scope = Some sc, Exclamation = bang, Footers = []\<rparr>"

definition exampleLib :: Lib where
  "exampleLib =
     \<lparr>unicodeToLower = (\<lambda>s. s), unicodeEqualFold = (\<lambda>s t. s = t), titleEnglish = (\<lambda>s. s),
      semverNewVersion =
        (\<lambda>s. if s = ''1.0.0'' then Some v100 else if s = ''1.2.3'' then Some v123
             else if s = ''1.3.0'' then Some v130 else None),
      parseConventional =
        (\<lambda>m. if m = ''fix(foo): x'' then Some (conv ''fix'' ''foo'' False)
             else if m = ''feat(bar): x'' then Some (conv ''feat'' ''bar'' False)
             else if m = ''feat(Foo)!: x'' then Some (conv ''feat'' ''Foo'' True)
             else if m = ''chore(foo): x'' then Some (conv ''chore'' ''foo'' False)
             else None),
      pdqsortReleases = insertionSort\<rparr>"

definition exampleClient :: "RepositoryRelease list \<Rightarrow> RepositoryCommit list \<Rightarrow> Client" where
  "exampleClient rels commits =
     \<lparr>ListReleases = (\<lambda>_ _ page. if page = 1 then Inr rels else Inr []),
      ListCommits = (\<lambda>_ _ _ _ _ page. if page = 1 then Inr commits else Inr []),
      GetCommit =
        (\<lambda>_ _ sha. if sha = ''abcdef1234'' then Inr (Some 2000000000000)
                   else if sha = ''0123456789'' then Inr (Some 1000000000000)
                   else if sha = ''fedcba9876'' then Inr (Some 1500000000000)
                   else Inl ''not found''),
      CreateRelease = (\<lambda>_ _ _. None)\<rparr>"

definition exampleAction :: "Client \<Rightarrow> string \<Rightarrow> VersioningAction" where
  "exampleAction cl br =
     \<lparr>client = cl, owner = ''o'', repository = ''r'', component = ''foo'', label = '''',
      branch = br, revision = ''abcdef1234'', initialVersion = ''1.0.0'',
      defaultBranch = ''main''\<rparr>"

definition releaseTagged :: "string \<Rightarrow> RepositoryRelease" where
  "releaseTagged tag =
     \<lparr>TagName = tag, Name = tag, TargetCommitish = ''0123456789'',
      GenerateReleaseNotes = False, Body = '''', Prerelease = False,
      PublishedAt = Some 1000000000000\<rparr>"

definition laterRelease :: RepositoryRelease where
  "laterRelease =
     \<lparr>TagName = ''foo-1.3.0'', Name = ''foo-1.3.0'', TargetCommitish = ''fedcba9876'',
      GenerateReleaseNotes = False, Body = '''', Prerelease = False,
      PublishedAt = Some 1500000000000\<rparr>"

definition commitOf :: "string \<Rightarrow> RepositoryCommit" where
  "commitOf m = \<lparr>SHA = ''abcdef1234'', HTMLURL = ''u'', Message = m, AuthorLogin = ''me''\<rparr>"

definition shortCommit :: RepositoryCommit where
  "shortCommit =
     \<lparr>SHA = ''abc'', HTMLURL = ''u'', Message = ''fix(foo): x'', AuthorLogin = ''me''\<rparr>"


section \<open>Properties of the library functions\<close>

lemma TrimPrefix_append: "TrimPrefix (p @ v) p = v"
  by (simp add: TrimPrefix_def HasPrefix_def)

lemma of_char_lowerByte:
  "(of_char (lowerByte c) :: nat) = (if isUpper c then of_char c + 32 else of_char c)"
  by (simp add: lowerByte_def isUpper_def)

lemma lowerByte_eq_iff:
  "lowerByte sr = lowerByte tr \<longleftrightarrow>
     sr = tr \<or> (isUpper sr \<and> (of_char tr :: nat) = of_char sr + 32)
            \<or> (isUpper tr \<and> (of_char sr :: nat) = of_char tr + 32)"
proof -
  have "lowerByte sr = lowerByte tr \<longleftrightarrow>
          (of_char (lowerByte sr) :: nat) = of_char (lowerByte tr)"
    by simp
  also have "\<dots> \<longleftrightarrow> sr = tr \<or> (isUpper sr \<and> (of_char tr :: nat) = of_char sr + 32)
            \<or> (isUpper tr \<and> (of_char sr :: nat) = of_char tr + 32)"
    unfolding of_char_lowerByte
    by (auto simp: isUpper_def)
  finally show ?thesis .
qed

text \<open>
  On ASCII strings \<open>EqualFold\<close> is equality of the lower-case forms, whatever the
  Unicode parameter is.
\<close>

lemma EqualFold_ascii:
  "list_all isASCII s \<Longrightarrow> list_all isASCII t \<Longrightarrow>
   EqualFold lib s t = (map lowerByte s = map lowerByte t)"
proof (induction s arbitrary: t)
  case Nil
  then show ?case by (cases t) auto
next
  case (Cons sr s)
  show ?case
  proof (cases t)
    case Nil
    then show ?thesis by simp
  next
    case (Cons tr t')
    with Cons.prems have "EqualFold lib s t' = (map lowerByte s = map lowerByte t')"
      by (intro Cons.IH) simp_all
    with Cons Cons.prems show ?thesis
      by (auto simp: lowerByte_eq_iff)
  qed
qed

lemma char_of_102: "char_of (102 :: nat) = CHR ''f''"
  by code_simp

lemma Version_String_not_empty: "Version_String v \<noteq> ''''"
  by (simp add: Version_String_def)

lemma withOriginal_fields:
  "major (withOriginal v w) = major w" "minor (withOriginal v w) = minor w"
  "patch (withOriginal v w) = patch w" "pre (withOriginal v w) = pre w"
  "metadata (withOriginal v w) = metadata w"
  by (simp_all add: withOriginal_def)

lemma withOriginal_not_zero: "withOriginal v w \<noteq> zeroVersion"
proof
  assume "withOriginal v w = zeroVersion"
  then have "original (withOriginal v w) = original zeroVersion" by simp
  then show False
    by (simp add: withOriginal_def zeroVersion_def Version_String_not_empty)
qed

text \<open>
  An increment never yields the zero value of \<open>Version\<close>, so the comparison of
  \<open>nextVersion\<close> with the zero value in \<open>newVersion\<close> tests whether a flag was set.
\<close>

lemma Inc_not_zero:
  "IncMajor v \<noteq> zeroVersion" "IncMinor v \<noteq> zeroVersion" "IncPatch v \<noteq> zeroVersion"
  by (simp_all add: IncMajor_def IncMinor_def IncPatch_def withOriginal_not_zero)

lemma IncMajor_fields:
  "major (IncMajor v) = major v + 1" "minor (IncMajor v) = 0" "patch (IncMajor v) = 0"
  "pre (IncMajor v) = ''''" "metadata (IncMajor v) = ''''"
  by (simp_all add: IncMajor_def withOriginal_fields)

lemma IncMinor_fields:
  "major (IncMinor v) = major v" "minor (IncMinor v) = minor v + 1" "patch (IncMinor v) = 0"
  "pre (IncMinor v) = ''''" "metadata (IncMinor v) = ''''"
  by (simp_all add: IncMinor_def withOriginal_fields)

lemma IncPatch_fields:
  "major (IncPatch v) = major v" "minor (IncPatch v) = minor v"
  "patch (IncPatch v) = (if pre v \<noteq> '''' then patch v else patch v + 1)"
  "pre (IncPatch v) = ''''" "metadata (IncPatch v) = ''''"
  by (simp_all add: IncPatch_def withOriginal_fields)

lemma prereleaseOf_Inr:
  "prereleaseOf a v = Inr pv \<Longrightarrow>
   7 \<le> length (revision a) \<and> pv = withOriginal v (v\<lparr>pre := take 7 (revision a)\<rparr>)"
  by (auto simp: prereleaseOf_def SetPrerelease_def split: if_splits)


section \<open>The scan of the commits\<close>

lemma scanCommits_breaking:
  "list_ex IsBreakingChange cs \<Longrightarrow> fst (scanCommits cs (b, f, x))"
  by (induction cs arbitrary: f x) auto

lemma scanCommits_no_breaking:
  "\<not> list_ex IsBreakingChange cs \<Longrightarrow>
   scanCommits cs (b, f, x) = (b, f \<or> list_ex IsFeat cs, x \<or> list_ex IsFix cs)"
  by (induction cs arbitrary: f x) auto

lemma scanCommits_stops:
  "IsBreakingChange c \<Longrightarrow> scanCommits (xs @ c # ys) fl = scanCommits (xs @ [c]) fl"
proof (induction xs arbitrary: fl)
  case Nil
  then show ?case by (cases fl) simp
next
  case (Cons x xs)
  then show ?case by (cases fl) simp
qed

lemma newVersion_scan:
  "newVersion a cur cs False =
     (case (if list_ex IsBreakingChange cs then Some (IncMajor cur)
            else if list_ex IsFeat cs then Some (IncMinor cur)
            else if list_ex IsFix cs then Some (IncPatch cur)
            else None) of
        None \<Rightarrow> Inr None
      | Some v \<Rightarrow>
          if branch a \<noteq> defaultBranch a
          then (case prereleaseOf a v of Inl p \<Rightarrow> Inl p | Inr pv \<Rightarrow> Inr (Some pv))
          else Inr (Some v))"
proof (cases "list_ex IsBreakingChange cs")
  case True
  then have "fst (scanCommits cs (False, False, False))"
    by (rule scanCommits_breaking)
  then obtain f x where "scanCommits cs (False, False, False) = (True, f, x)"
    by (cases "scanCommits cs (False, False, False)") auto
  with True show ?thesis
    by (simp add: newVersion_def Inc_not_zero)
next
  case False
  then have "scanCommits cs (False, False, False) = (False, list_ex IsFeat cs, list_ex IsFix cs)"
    by (simp add: scanCommits_no_breaking)
  with False show ?thesis
    by (simp add: newVersion_def Inc_not_zero)
qed

lemma newVersion_stops:
  assumes "IsBreakingChange c"
  shows "newVersion a cur (xs @ c # ys) False = newVersion a cur (xs @ [c]) False"
  using scanCommits_stops [OF assms, of xs ys "(False, False, False)"]
  by (simp add: newVersion_def)

lemma newVersion_first:
  "newVersion a cur cs True =
     (if branch a \<noteq> defaultBranch a
      then (case prereleaseOf a cur of Inl p \<Rightarrow> Inl p | Inr pv \<Rightarrow> Inr (Some pv))
      else Inr (Some cur))"
  by (simp add: newVersion_def)


section \<open>The bump priority\<close>

text \<open>
  Claim C1. When the version is not the first one, \<open>newVersion\<close> decides by priority:
  a breaking change among the commits gives the major increment of the current version,
  otherwise a \<open>feat\<close> commit gives the minor increment, otherwise a \<open>fix\<close> commit gives
  the patch increment, otherwise there is no new version; how many commits of each kind
  there are and in which order does not matter. On a branch other than the default one
  the incremented version then gets its prerelease label. The scan stops at the first
  breaking change: the commits behind it are never examined, so the flags and the result
  are those of the list cut behind that commit.
\<close>

theorem newVersion_bump_priority:
  "newVersion a currentVersion commits False =
     (case (if list_ex IsBreakingChange commits then Some (IncMajor currentVersion)
            else if list_ex IsFeat commits then Some (IncMinor currentVersion)
            else if list_ex IsFix commits then Some (IncPatch currentVersion)
            else None) of
        None \<Rightarrow> Inr None
      | Some v \<Rightarrow>
          if branch a \<noteq> defaultBranch a
          then (case prereleaseOf a v of Inl p \<Rightarrow> Inl p | Inr pv \<Rightarrow> Inr (Some pv))
          else Inr (Some v))
   \<and> (IsBreakingChange c \<longrightarrow>
        scanCommits (before @ c # later) flags = scanCommits (before @ [c]) flags \<and>
        newVersion a currentVersion (before @ c # later) False =
          newVersion a currentVersion (before @ [c]) False)"
  using newVersion_scan [of a currentVersion commits]
    scanCommits_stops [of c before later flags]
    newVersion_stops [of c a currentVersion before later]
  by blast

theorem newVersion_bump_priority_witness:
  "IsBreakingChange (conv ''feat'' ''foo'' True)
   \<and> newVersion (exampleAction (exampleClient [] []) ''main'') v123
       [conv ''fix'' ''foo'' False, conv ''feat'' ''foo'' True, conv ''feat'' ''foo'' False] False
     = Inr (Some (IncMajor v123))
   \<and> scanCommits
       [conv ''fix'' ''foo'' False, conv ''feat'' ''foo'' True, conv ''feat'' ''foo'' False]
       (False, False, False)
     = scanCommits [conv ''fix'' ''foo'' False, conv ''feat'' ''foo'' True] (False, False, False)"
  using newVersion_bump_priority
    [where a = "exampleAction (exampleClient [] []) ''main''" and currentVersion = v123
       and commits = "[conv ''fix'' ''foo'' False, conv ''feat'' ''foo'' True,
                       conv ''feat'' ''foo'' False]"
       and c = "conv ''feat'' ''foo'' True" and before = "[conv ''fix'' ''foo'' False]"
       and later = "[conv ''feat'' ''foo'' False]" and flags = "(False, False, False)"]
  by (simp add: IsBreakingChange_def conv_def exampleAction_def)


section \<open>The tag prefix\<close>

text \<open>
  Claim C8. Stripping the component prefix from a version string that
  \<open>prefixWithComponent\<close> put it in front of gives the version string back, for every
  component and every version string.
\<close>

theorem prefixWithComponent_round_trip:
  "TrimPrefix (prefixWithComponent lib c v) (getComponentPrefix lib c) = v"
  by (simp add: prefixWithComponent_def TrimPrefix_append)

theorem prefixWithComponent_round_trip_witness:
  "prefixWithComponent exampleLib ''Foo'' ''1.2.3'' = ''foo-1.2.3''
   \<and> TrimPrefix ''foo-1.2.3'' (getComponentPrefix exampleLib ''Foo'') = ''1.2.3''"
  using prefixWithComponent_round_trip [of exampleLib "''Foo''" "''1.2.3''"]
  by (simp add: prefixWithComponent_def getComponentPrefix_def ToLower_def isASCII_def
      isUpper_def lowerByte_def char_of_102)


section \<open>What the calls of the client add to the trace\<close>

lemma createdReleases_append:
  "createdReleases (xs @ ys) = createdReleases xs @ createdReleases ys"
  by (induction xs rule: createdReleases.induct) simp_all

lemma commitWindows_append:
  "commitWindows (xs @ ys) = commitWindows xs @ commitWindows ys"
  by (induction xs rule: commitWindows.induct) simp_all

lemma getAllReleases_loop_snd:
  "getAllReleases_loop a page acc tr = Some y \<Longrightarrow>
   createdReleases (snd y) = createdReleases tr \<and> commitWindows (snd y) = commitWindows tr"
  by (rule getAllReleases_loop.raw_induct
        [where P = "\<lambda>a page acc tr y. createdReleases (snd y) = createdReleases tr
                       \<and> commitWindows (snd y) = commitWindows tr"])
     (auto split: sum.splits if_splits simp: createdReleases_append commitWindows_append)

lemma getAllReleases_trace:
  "getAllReleases a tr = Some (r, tr') \<Longrightarrow>
   createdReleases tr' = createdReleases tr \<and> commitWindows tr' = commitWindows tr"
  using getAllReleases_loop_snd [of a 1 "[]" tr "(r, tr')"]
  by (simp add: getAllReleases_def)

lemma getNewCommits_loop_snd:
  "getNewCommits_loop a since until br page acc tr = Some y \<Longrightarrow>
   createdReleases (snd y) = createdReleases tr \<and>
   set (commitWindows (snd y)) = insert (since, until) (set (commitWindows tr))"
  by (rule getNewCommits_loop.raw_induct
        [where P = "\<lambda>a since until br page acc tr y.
                      createdReleases (snd y) = createdReleases tr \<and>
                      set (commitWindows (snd y)) = insert (since, until) (set (commitWindows tr))"])
     (auto split: sum.splits if_splits simp: createdReleases_append commitWindows_append)

lemma getNewCommits_trace:
  "getNewCommits a since until br tr = Some (r, tr') \<Longrightarrow>
   createdReleases tr' = createdReleases tr \<and>
   set (commitWindows tr') =
     insert (case since of None \<Rightarrow> startOfEpoch | Some t \<Rightarrow> Time_Add t Second, until)
       (set (commitWindows tr))"
  using getNewCommits_loop_snd [of a _ until br 1 "[]" tr "(r, tr')"]
  by (cases since) (simp_all add: getNewCommits_def)

lemma committerTime_trace:
  "committerTime a sha tr = (r, tr') \<Longrightarrow>
   createdReleases tr' = createdReleases tr \<and> commitWindows tr' = commitWindows tr"
  by (auto simp: committerTime_def createdReleases_append commitWindows_append
      split: sum.splits option.splits)

lemma getPreviousChangeTime_trace:
  "getPreviousChangeTime a ex tr = (r, tr') \<Longrightarrow>
   createdReleases tr' = createdReleases tr \<and> commitWindows tr' = commitWindows tr"
  by (auto simp: getPreviousChangeTime_def split: list.splits prod.splits sum.splits
      dest: committerTime_trace)

lemma getCurrentChangeTime_trace:
  "getCurrentChangeTime a tr = (r, tr') \<Longrightarrow>
   createdReleases tr' = createdReleases tr \<and> commitWindows tr' = commitWindows tr"
  unfolding getCurrentChangeTime_def by (rule committerTime_trace)

lemma createGitHubRelease_trace:
  "createGitHubRelease lib a v commits tr = (r, tr') \<Longrightarrow> commitWindows tr' = commitWindows tr"
  by (auto simp: createGitHubRelease_def Let_def commitWindows_append
      split: sum.splits option.splits)

lemma committerTime_Some:
  "GetCommit (client a) (owner a) (repository a) sha = Inr (Some t) \<Longrightarrow>
   committerTime a sha tr = (Inr t, tr @ [GetCommitCall (owner a) (repository a) sha])"
  by (simp add: committerTime_def)


section \<open>The stages of GenerateVersion\<close>

lemma filterAndSort_no_match:
  assumes "\<not> list_ex (\<lambda>release. HasPrefix (ToLower lib (TagName release))
                                  (getComponentPrefix lib c)) releases"
  shows "filterAndSortReleasesForComponent lib c releases = Inr []"
proof -
  from assms have "filter (\<lambda>release. HasPrefix (ToLower lib (TagName release))
                                  (getComponentPrefix lib c)) releases = []"
    by (simp add: list_ex_iff filter_empty_conv)
  then show ?thesis
    by (simp add: filterAndSortReleasesForComponent_def sortSlice_def insertionSort_def)
qed

lemma GenerateVersion_reach:
  assumes "getAllReleases a tr = Some (Inr rels, tr1)"
    and "filterAndSortReleasesForComponent lib (component a) rels = Inr ex"
    and "existingVersionOrNew lib (component a) ex (initialVersion a) = Inr (cur, first)"
    and "getPreviousChangeTime a ex tr1 = (Inr prev, tr2)"
    and "getCurrentChangeTime a tr2 = (Inr now, tr3)"
    and "getNewCommits a prev (Time_Add now Millisecond) (branch a) tr3 = Some (Inr commits, tr4)"
  shows "GenerateVersion lib a dryRun tr =
     (case newVersion a cur (convertAndFilterCommitsForComponent lib (component a) commits) first of
        Inl p \<Rightarrow> Some (Inl p, tr4)
      | Inr None \<Rightarrow> Some (Inr None, tr4)
      | Inr (Some v) \<Rightarrow>
          if dryRun then Some (Inr (Some v), tr4)
          else (case createGitHubRelease lib a v commits tr4 of
                  (Inl p, tr5) \<Rightarrow> Some (Inl p, tr5)
                | (Inr _, tr5) \<Rightarrow> Some (Inr (Some v), tr5)))"
  by (simp add: GenerateVersion_def assms)

lemma GenerateVersion_dry_created:
  assumes "GenerateVersion lib a True tr = Some (r, tr')"
  shows "createdReleases tr' = createdReleases tr"
  using assms unfolding GenerateVersion_def
  by (auto split: option.splits sum.splits prod.splits if_splits
      dest!: getAllReleases_trace getPreviousChangeTime_trace getCurrentChangeTime_trace
        getNewCommits_trace)

lemma GenerateVersion_dry_then_real:
  assumes "GenerateVersion lib a True tr = Some (r, tr')"
  shows "\<exists>r2 tr2. GenerateVersion lib a False tr = Some (r2, tr2) \<and>
           (r2 = r \<or> (\<exists>v p. r = Inr (Some v) \<and> r2 = Inl p))"
  using assms unfolding GenerateVersion_def
  by (auto split: option.splits sum.splits prod.splits if_splits)

lemma GenerateVersion_real_then_dry:
  assumes "GenerateVersion lib a False tr = Some (Inr r, tr2)"
  shows "\<exists>tr'. GenerateVersion lib a True tr = Some (Inr r, tr')"
  using assms unfolding GenerateVersion_def
  by (auto split: option.splits sum.splits prod.splits if_splits)


section \<open>The example runs, stage by stage\<close>

lemma exampleAction_fields:
  "client (exampleAction cl br) = cl" "owner (exampleAction cl br) = ''o''"
  "repository (exampleAction cl br) = ''r''" "component (exampleAction cl br) = ''foo''"
  "branch (exampleAction cl br) = br" "revision (exampleAction cl br) = ''abcdef1234''"
  "initialVersion (exampleAction cl br) = ''1.0.0''"
  "defaultBranch (exampleAction cl br) = ''main''"
  by (simp_all add: exampleAction_def)

lemma example_getAllReleases_none:
  "getAllReleases (exampleAction (exampleClient [] cs) br) tr =
     Some (Inr [], tr @ [ListReleasesCall ''o'' ''r'' 1])"
  unfolding getAllReleases_def
  by (subst getAllReleases_loop.simps) (simp add: exampleAction_def exampleClient_def)

lemma example_getAllReleases_one:
  "getAllReleases (exampleAction (exampleClient (r # rs) cs) br) tr =
     Some (Inr (r # rs), tr @ [ListReleasesCall ''o'' ''r'' 1, ListReleasesCall ''o'' ''r'' 2])"
  unfolding getAllReleases_def
  apply (subst getAllReleases_loop.simps)
  apply (simp add: exampleAction_def exampleClient_def)
  apply (subst getAllReleases_loop.simps)
  apply (simp add: exampleAction_def exampleClient_def)
  done

lemma example_getNewCommits_loop:
  "getNewCommits_loop (exampleAction (exampleClient rs (c # cs)) br) since until b 1 [] tr =
     Some (Inr (c # cs),
       tr @ [ListCommitsCall ''o'' ''r'' since until b 1,
             ListCommitsCall ''o'' ''r'' since until b 2])"
  apply (subst getNewCommits_loop.simps)
  apply (simp add: exampleAction_def exampleClient_def)
  apply (subst getNewCommits_loop.simps)
  apply (simp add: exampleAction_def exampleClient_def)
  done

lemma example_getNewCommits_first:
  "getNewCommits (exampleAction (exampleClient rs (c # cs)) br) None until b tr =
     Some (Inr (c # cs),
       tr @ [ListCommitsCall ''o'' ''r'' 0 until b 1, ListCommitsCall ''o'' ''r'' 0 until b 2])"
  using example_getNewCommits_loop [of rs c cs br 0 until b tr]
  by (simp add: getNewCommits_def startOfEpoch_def)

lemma example_getNewCommits_later:
  "getNewCommits (exampleAction (exampleClient rs (c # cs)) br) (Some t) until b tr =
     Some (Inr (c # cs),
       tr @ [ListCommitsCall ''o'' ''r'' (t + 1000000000) until b 1,
             ListCommitsCall ''o'' ''r'' (t + 1000000000) until b 2])"
  using example_getNewCommits_loop [of rs c cs br "t + 1000000000" until b tr]
  by (simp add: getNewCommits_def Time_Add_def Second_def)

lemma example_GetCommit_revision:
  "GetCommit (exampleClient rs cs) x y ''abcdef1234'' = Inr (Some 2000000000000)"
  by (simp add: exampleClient_def)

lemma example_GetCommit_target:
  "GetCommit (exampleClient rs cs) x y ''0123456789'' = Inr (Some 1000000000000)"
  by (simp add: exampleClient_def)

lemma example_getCurrentChangeTime:
  "getCurrentChangeTime (exampleAction (exampleClient rs cs) br) tr =
     (Inr 2000000000000, tr @ [GetCommitCall ''o'' ''r'' ''abcdef1234''])"
  by (simp add: getCurrentChangeTime_def committerTime_def exampleAction_fields
      example_GetCommit_revision)

lemma example_getPreviousChangeTime_none:
  "getPreviousChangeTime (exampleAction (exampleClient rs cs) br) [] tr = (Inr None, tr)"
  by (simp add: getPreviousChangeTime_def)

lemma example_getPreviousChangeTime_one:
  "getPreviousChangeTime (exampleAction (exampleClient rs cs) br) [releaseTagged tag] tr =
     (Inr (Some 1000000000000), tr @ [GetCommitCall ''o'' ''r'' ''0123456789''])"
  by (simp add: getPreviousChangeTime_def committerTime_def exampleAction_fields
      example_GetCommit_target releaseTagged_def)

lemma example_ToLower: "ToLower lib ''foo-bogus'' = ''foo-bogus''"
  "ToLower lib ''foo-1.2.3'' = ''foo-1.2.3''" "ToLower lib ''foo'' = ''foo''"
  "ToLower lib ''foo-1.3.0'' = ''foo-1.3.0''"
  by (simp_all add: ToLower_def isASCII_def isUpper_def)

lemma example_filter_one:
  "tag = ''foo-1.2.3'' \<or> tag = ''foo-bogus'' \<Longrightarrow>
   filterAndSortReleasesForComponent exampleLib ''foo'' [releaseTagged tag] = Inr [releaseTagged tag]"
  by (auto simp: filterAndSortReleasesForComponent_def sortSlice_def insertionSort_def
      insertLeft_def
      releaseTagged_def example_ToLower getComponentPrefix_def HasPrefix_def)

lemma example_filter_none:
  "filterAndSortReleasesForComponent exampleLib ''foo'' [] = Inr []"
  by (simp add: filterAndSortReleasesForComponent_def sortSlice_def insertionSort_def)

lemma example_existing_none:
  "existingVersionOrNew exampleLib ''foo'' [] ''1.0.0'' = Inr (v100, True)"
  by (simp add: existingVersionOrNew_def MustParse_def exampleLib_def)

lemma example_existing_one:
  "existingVersionOrNew exampleLib ''foo'' [releaseTagged ''foo-1.2.3''] ''1.0.0'' =
     Inr (v123, False)"
  by (simp add: existingVersionOrNew_def MustParse_def TrimPrefix_def releaseTagged_def
      exampleLib_def example_ToLower getComponentPrefix_def HasPrefix_def)

lemma example_GetCommit_later:
  "GetCommit (exampleClient rs cs) x y ''fedcba9876'' = Inr (Some 1500000000000)"
  by (simp add: exampleClient_def)

lemma example_getPreviousChangeTime_later:
  "getPreviousChangeTime (exampleAction (exampleClient rs cs) br) (laterRelease # others) tr =
     (Inr (Some 1500000000000), tr @ [GetCommitCall ''o'' ''r'' ''fedcba9876''])"
  by (simp add: getPreviousChangeTime_def committerTime_def exampleAction_fields
      example_GetCommit_later laterRelease_def)

text \<open>
  Two releases of the component, listed with the earlier one first: the sort puts the
  later one first.
\<close>

lemma example_filter_two:
  "filterAndSortReleasesForComponent exampleLib ''foo'' [releaseTagged ''foo-1.2.3'', laterRelease]
     = Inr [laterRelease, releaseTagged ''foo-1.2.3'']"
  by (simp add: filterAndSortReleasesForComponent_def sortSlice_def insertionSort_def
      insertLeft_def publishedUnix_def Unix_def releaseTagged_def laterRelease_def
      example_ToLower getComponentPrefix_def HasPrefix_def)

lemma example_existing_later:
  "existingVersionOrNew exampleLib ''foo'' (laterRelease # others) ''1.0.0'' = Inr (v130, False)"
  by (simp add: existingVersionOrNew_def MustParse_def TrimPrefix_def laterRelease_def
      exampleLib_def example_ToLower getComponentPrefix_def HasPrefix_def)

lemma example_lists:
  "\<exists>x t'. getNewCommits_loop (exampleAction (exampleClient rs (c # cs)) br) since until b 1 [] t
            = Some (x, t')"
  using example_getNewCommits_loop [of rs c cs br since until b t] by blast

lemma example_EqualFold:
  "EqualFold lib ''foo'' ''foo''" "EqualFold lib ''Foo'' ''foo''"
  "\<not> EqualFold lib ''bar'' ''foo''"
  by (simp_all add: isASCII_def isUpper_def)

lemma example_convert_fix:
  "convertAndFilterCommitsForComponent exampleLib ''foo''
     [commitOf ''fix(foo): x'', commitOf ''feat(bar): x''] = [conv ''fix'' ''foo'' False]"
  by (simp add: exampleLib_def commitOf_def conv_def isASCII_def isUpper_def)

lemma example_convert_chore:
  "convertAndFilterCommitsForComponent exampleLib ''foo''
     [commitOf ''chore(foo): x'', commitOf ''feat(bar): x''] = [conv ''chore'' ''foo'' False]"
  by (simp add: exampleLib_def commitOf_def conv_def isASCII_def isUpper_def)

lemma example_convert_breaking:
  "convertAndFilterCommitsForComponent exampleLib ''foo''
     [commitOf ''fix(foo): x'', commitOf ''no conventional commit'', commitOf ''feat(Foo)!: x'']
   = [conv ''fix'' ''foo'' False, conv ''feat'' ''Foo'' True]"
  by (simp add: exampleLib_def commitOf_def conv_def isASCII_def isUpper_def)

lemma example_kinds:
  "IsFix (conv ''fix'' sc b)" "\<not> IsFeat (conv ''fix'' sc b)"
  "\<not> IsFix (conv ''chore'' sc b)" "\<not> IsFeat (conv ''chore'' sc b)"
  "IsFeat (conv ''feat'' sc b)" "IsBreakingChange (conv t sc b) = b"
  by (simp_all add: IsFix_def IsFeat_def IsBreakingChange_def conv_def)

lemma example_validPrerelease: "validPrerelease ''abcdef1''"
  by (simp add: validPrerelease_def isPrereleaseChar_def isDigit_def isLower_def isUpper_def)

text \<open>
  The run on the default branch after the release \<open>foo-1.2.3\<close>, with a \<open>fix\<close> of the
  component and a \<open>feat\<close> of another component in the window, as a dry run.
\<close>

lemma example_patch_dry_run:
  "GenerateVersion exampleLib
     (exampleAction
        (exampleClient [releaseTagged ''foo-1.2.3'']
           [commitOf ''fix(foo): x'', commitOf ''feat(bar): x''])
        ''main'')
     True [] =
   Some (Inr (Some (IncPatch v123)),
     [ListReleasesCall ''o'' ''r'' 1, ListReleasesCall ''o'' ''r'' 2,
      GetCommitCall ''o'' ''r'' ''0123456789'', GetCommitCall ''o'' ''r'' ''abcdef1234'',
      ListCommitsCall ''o'' ''r'' 1001000000000 2000001000000 ''main'' 1,
      ListCommitsCall ''o'' ''r'' 1001000000000 2000001000000 ''main'' 2])"
  by (simp add: GenerateVersion_def example_getAllReleases_one exampleAction_fields
      example_filter_one example_existing_one example_getPreviousChangeTime_one
      example_getCurrentChangeTime example_getNewCommits_later example_convert_fix
      newVersion_scan example_kinds Time_Add_def Millisecond_def
      del: convertAndFilterCommitsForComponent.simps)

text \<open>
  The first run of the component on the default branch: no release, and commits with a
  breaking change in the window.
\<close>

lemma example_first_run:
  "GenerateVersion exampleLib
     (exampleAction
        (exampleClient []
           [commitOf ''fix(foo): x'', commitOf ''no conventional commit'',
            commitOf ''feat(Foo)!: x''])
        ''main'')
     True [] =
   Some (Inr (Some v100),
     [ListReleasesCall ''o'' ''r'' 1, GetCommitCall ''o'' ''r'' ''abcdef1234'',
      ListCommitsCall ''o'' ''r'' 0 2000001000000 ''main'' 1,
      ListCommitsCall ''o'' ''r'' 0 2000001000000 ''main'' 2])"
  by (simp add: GenerateVersion_def example_getAllReleases_none exampleAction_fields
      example_filter_none example_existing_none example_getPreviousChangeTime_none
      example_getCurrentChangeTime example_getNewCommits_first
      newVersion_first Time_Add_def Millisecond_def
      del: convertAndFilterCommitsForComponent.simps)


section \<open>No change\<close>

text \<open>
  Claim C2. In a run that is not the first creation of a version, when the commits of
  the component hold no breaking change, no \<open>feat\<close> and no \<open>fix\<close>, \<open>newVersion\<close>
  returns nil, and \<open>GenerateVersion\<close> returns nil with no release requested from the
  remote: the trace holds the same created releases as before the run. The run is taken
  up to the commits it has listed: the releases and the commits were listed, the tag
  of the latest release was parsed, and the two commit times were found.
\<close>

theorem GenerateVersion_no_change:
  assumes "getAllReleases a tr = Some (Inr allReleases, tr1)"
    and "filterAndSortReleasesForComponent lib (component a) allReleases = Inr existingReleases"
    and "existingVersionOrNew lib (component a) existingReleases (initialVersion a) =
           Inr (existingVersion, False)"
    and "getPreviousChangeTime a existingReleases tr1 = (Inr previousChangeTime, tr2)"
    and "getCurrentChangeTime a tr2 = (Inr currentChangeTime, tr3)"
    and "getNewCommits a previousChangeTime (Time_Add currentChangeTime Millisecond) (branch a) tr3
           = Some (Inr newCommits, tr4)"
    and "\<not> list_ex IsBreakingChange
             (convertAndFilterCommitsForComponent lib (component a) newCommits)"
    and "\<not> list_ex IsFeat (convertAndFilterCommitsForComponent lib (component a) newCommits)"
    and "\<not> list_ex IsFix (convertAndFilterCommitsForComponent lib (component a) newCommits)"
  shows "newVersion a existingVersion
           (convertAndFilterCommitsForComponent lib (component a) newCommits) False = Inr None
         \<and> GenerateVersion lib a dryRun tr = Some (Inr None, tr4)
         \<and> createdReleases tr4 = createdReleases tr"
proof -
  have nil: "newVersion a existingVersion
           (convertAndFilterCommitsForComponent lib (component a) newCommits) False = Inr None"
    using assms(7-9) by (simp add: newVersion_scan)
  have run: "GenerateVersion lib a dryRun tr = Some (Inr None, tr4)"
    by (simp add: GenerateVersion_reach [OF assms(1-6)] nil)
  have "createdReleases tr4 = createdReleases tr"
    using getAllReleases_trace [OF assms(1)] getPreviousChangeTime_trace [OF assms(4)]
      getCurrentChangeTime_trace [OF assms(5)] getNewCommits_trace [OF assms(6)]
    by simp
  with nil run show ?thesis by simp
qed

theorem GenerateVersion_no_change_witness:
  "GenerateVersion exampleLib
     (exampleAction
        (exampleClient [releaseTagged ''foo-1.2.3'']
           [commitOf ''chore(foo): x'', commitOf ''feat(bar): x''])
        ''main'')
     False [] =
   Some (Inr None,
     [ListReleasesCall ''o'' ''r'' 1, ListReleasesCall ''o'' ''r'' 2,
      GetCommitCall ''o'' ''r'' ''0123456789'', GetCommitCall ''o'' ''r'' ''abcdef1234'',
      ListCommitsCall ''o'' ''r'' 1001000000000 2000001000000 ''main'' 1,
      ListCommitsCall ''o'' ''r'' 1001000000000 2000001000000 ''main'' 2])
   \<and> createdReleases
       [ListReleasesCall ''o'' ''r'' 1, ListReleasesCall ''o'' ''r'' 2,
        GetCommitCall ''o'' ''r'' ''0123456789'', GetCommitCall ''o'' ''r'' ''abcdef1234'',
        ListCommitsCall ''o'' ''r'' 1001000000000 2000001000000 ''main'' 1,
        ListCommitsCall ''o'' ''r'' 1001000000000 2000001000000 ''main'' 2] = []"
proof -
  let ?a = "exampleAction
        (exampleClient [releaseTagged ''foo-1.2.3'']
           [commitOf ''chore(foo): x'', commitOf ''feat(bar): x''])
        ''main''"
  have h2: "filterAndSortReleasesForComponent exampleLib (component ?a)
              [releaseTagged ''foo-1.2.3''] = Inr [releaseTagged ''foo-1.2.3'']"
    by (simp add: exampleAction_fields example_filter_one)
  have h3: "existingVersionOrNew exampleLib (component ?a) [releaseTagged ''foo-1.2.3'']
              (initialVersion ?a) = Inr (v123, False)"
    by (simp add: exampleAction_fields example_existing_one)
  have h6: "getNewCommits ?a (Some 1000000000000) (Time_Add 2000000000000 Millisecond)
              (branch ?a)
              ((([] @ [ListReleasesCall ''o'' ''r'' 1, ListReleasesCall ''o'' ''r'' 2])
                 @ [GetCommitCall ''o'' ''r'' ''0123456789''])
                 @ [GetCommitCall ''o'' ''r'' ''abcdef1234'']) =
            Some (Inr [commitOf ''chore(foo): x'', commitOf ''feat(bar): x''],
              [ListReleasesCall ''o'' ''r'' 1, ListReleasesCall ''o'' ''r'' 2,
               GetCommitCall ''o'' ''r'' ''0123456789'', GetCommitCall ''o'' ''r'' ''abcdef1234'',
               ListCommitsCall ''o'' ''r'' 1001000000000 2000001000000 ''main'' 1,
               ListCommitsCall ''o'' ''r'' 1001000000000 2000001000000 ''main'' 2])"
    by (simp add: example_getNewCommits_later exampleAction_fields Time_Add_def Millisecond_def)
  have h7: "\<not> list_ex IsBreakingChange
               (convertAndFilterCommitsForComponent exampleLib (component ?a)
                  [commitOf ''chore(foo): x'', commitOf ''feat(bar): x''])"
    "\<not> list_ex IsFeat
               (convertAndFilterCommitsForComponent exampleLib (component ?a)
                  [commitOf ''chore(foo): x'', commitOf ''feat(bar): x''])"
    "\<not> list_ex IsFix
               (convertAndFilterCommitsForComponent exampleLib (component ?a)
                  [commitOf ''chore(foo): x'', commitOf ''feat(bar): x''])"
    by (simp_all add: exampleAction_fields example_convert_chore example_kinds
        del: convertAndFilterCommitsForComponent.simps)
  show ?thesis
    using GenerateVersion_no_change
      [OF example_getAllReleases_one h2 h3 example_getPreviousChangeTime_one
          example_getCurrentChangeTime h6 h7, of False]
    by simp
qed


section \<open>The first version\<close>

text \<open>
  Claim C3. When no release of the remote matches the component, the initial version
  parses, and the run finds the time of the revision and lists the commits, then
  \<open>GenerateVersion\<close> returns the configured initial version, on the default branch as
  it was parsed and on any other branch with the first 7 bytes of the revision as
  prerelease label (for which the revision must have 7 bytes that form a label). The dry
  run returns it, the other run returns it unless creating the release panics. The
  commits play no part: \<open>newVersion\<close> returns that version for every list of commits.
\<close>

theorem first_creation_initial_version:
  assumes rel: "getAllReleases a tr = Some (Inr allReleases, tr1)"
    and none: "\<not> list_ex (matchesComponent lib (component a)) allReleases"
    and init: "semverNewVersion lib (initialVersion a) = Some initial"
    and cur: "getCurrentChangeTime a tr1 = (Inr currentChangeTime, tr3)"
    and list: "getNewCommits a None (Time_Add currentChangeTime Millisecond) (branch a) tr3
                 = Some (Inr newCommits, tr4)"
    and label: "branch a \<noteq> defaultBranch a \<longrightarrow>
                  7 \<le> length (revision a) \<and> validPrerelease (take 7 (revision a))"
    and version: "version = (if branch a = defaultBranch a then initial
                    else withOriginal initial (initial\<lparr>pre := take 7 (revision a)\<rparr>))"
  shows "GenerateVersion lib a True tr = Some (Inr (Some version), tr4)
         \<and> GenerateVersion lib a False tr =
             (case createGitHubRelease lib a version newCommits tr4 of
                (Inl p, tr5) \<Rightarrow> Some (Inl p, tr5)
              | (Inr _, tr5) \<Rightarrow> Some (Inr (Some version), tr5))
         \<and> (\<forall>commits. newVersion a initial commits True = Inr (Some version))"
proof -
  have "\<not> list_ex (\<lambda>release. HasPrefix (ToLower lib (TagName release))
                                (getComponentPrefix lib (component a))) allReleases"
    using none by (simp add: matchesComponent_def [abs_def] getComponentPrefix_def)
  then have flt: "filterAndSortReleasesForComponent lib (component a) allReleases = Inr []"
    by (rule filterAndSort_no_match)
  have first: "existingVersionOrNew lib (component a) [] (initialVersion a) = Inr (initial, True)"
    by (simp add: existingVersionOrNew_def MustParse_def init)
  have prev: "getPreviousChangeTime a [] tr1 = (Inr None, tr1)"
    by (simp add: getPreviousChangeTime_def)
  have new: "newVersion a initial commits True = Inr (Some version)" for commits
    using label
    by (auto simp: newVersion_first version prereleaseOf_def SetPrerelease_def)
  show ?thesis
    using new
    by (simp add: GenerateVersion_reach [OF rel flt first prev cur list])
qed

theorem first_creation_initial_version_witness:
  "GenerateVersion exampleLib
     (exampleAction
        (exampleClient []
           [commitOf ''fix(foo): x'', commitOf ''no conventional commit'',
            commitOf ''feat(Foo)!: x''])
        ''main'')
     True [] =
   Some (Inr (Some v100),
     [ListReleasesCall ''o'' ''r'' 1, GetCommitCall ''o'' ''r'' ''abcdef1234'',
      ListCommitsCall ''o'' ''r'' 0 2000001000000 ''main'' 1,
      ListCommitsCall ''o'' ''r'' 0 2000001000000 ''main'' 2])
   \<and> GenerateVersion exampleLib
       (exampleAction
          (exampleClient []
             [commitOf ''fix(foo): x'', commitOf ''no conventional commit'',
              commitOf ''feat(Foo)!: x''])
          ''feature-1'')
       True [] =
     Some (Inr (Some (withOriginal v100 (v100\<lparr>pre := ''abcdef1''\<rparr>))),
       [ListReleasesCall ''o'' ''r'' 1, GetCommitCall ''o'' ''r'' ''abcdef1234'',
        ListCommitsCall ''o'' ''r'' 0 2000001000000 ''feature-1'' 1,
        ListCommitsCall ''o'' ''r'' 0 2000001000000 ''feature-1'' 2])"
proof -
  let ?cs = "[commitOf ''fix(foo): x'', commitOf ''no conventional commit'',
              commitOf ''feat(Foo)!: x'']"
  have run: "GenerateVersion exampleLib (exampleAction (exampleClient [] ?cs) br) True [] =
      Some (Inr (Some (if br = ''main'' then v100
                       else withOriginal v100 (v100\<lparr>pre := ''abcdef1''\<rparr>))),
        [ListReleasesCall ''o'' ''r'' 1, GetCommitCall ''o'' ''r'' ''abcdef1234'',
         ListCommitsCall ''o'' ''r'' 0 2000001000000 br 1,
         ListCommitsCall ''o'' ''r'' 0 2000001000000 br 2])" for br
  proof -
    let ?a = "exampleAction (exampleClient [] ?cs) br"
    have h2: "\<not> list_ex (matchesComponent exampleLib (component ?a)) []"
      by simp
    have h3: "semverNewVersion exampleLib (initialVersion ?a) = Some v100"
      by (simp add: exampleAction_fields exampleLib_def)
    have h5: "getNewCommits ?a None (Time_Add 2000000000000 Millisecond) (branch ?a)
                (([] @ [ListReleasesCall ''o'' ''r'' 1])
                   @ [GetCommitCall ''o'' ''r'' ''abcdef1234'']) =
              Some (Inr ?cs,
                [ListReleasesCall ''o'' ''r'' 1, GetCommitCall ''o'' ''r'' ''abcdef1234'',
                 ListCommitsCall ''o'' ''r'' 0 2000001000000 br 1,
                 ListCommitsCall ''o'' ''r'' 0 2000001000000 br 2])"
      by (simp add: example_getNewCommits_first exampleAction_fields Time_Add_def
          Millisecond_def)
    have h6: "branch ?a \<noteq> defaultBranch ?a \<longrightarrow>
                7 \<le> length (revision ?a) \<and> validPrerelease (take 7 (revision ?a))"
      by (simp add: exampleAction_fields example_validPrerelease)
    have h7: "(if br = ''main'' then v100
               else withOriginal v100 (v100\<lparr>pre := ''abcdef1''\<rparr>)) =
              (if branch ?a = defaultBranch ?a then v100
               else withOriginal v100 (v100\<lparr>pre := take 7 (revision ?a)\<rparr>))"
      by (simp add: exampleAction_fields)
    show ?thesis
      using first_creation_initial_version
        [OF example_getAllReleases_none h2 h3 example_getCurrentChangeTime h5 h6 h7]
      by blast
  qed
  show ?thesis
    using run [of "''main''"] run [of "''feature-1''"] by simp
qed


section \<open>The prerelease label\<close>

lemma prereleaseOf_short:
  "length (revision a) < 7 \<Longrightarrow> prereleaseOf a v = Inl SliceBoundsOutOfRange"
  by (simp add: prereleaseOf_def)

lemma prereleaseOf_pre:
  "prereleaseOf a v = Inr pv \<Longrightarrow> 7 \<le> length (revision a) \<and> pre pv = take 7 (revision a)"
  by (auto dest!: prereleaseOf_Inr simp: withOriginal_fields)

text \<open>
  Claim C4. Whenever \<open>newVersion\<close> returns a version, for a first creation or for a
  bump: on a branch other than the default branch (the comparison is equality of the
  two strings) the revision has at least 7 bytes and the prerelease label of the version
  is its first 7 bytes; on the default branch no label is added, the version is the
  current one at a first creation and one of the three increments, without a label,
  otherwise. On a branch other than the default branch a revision of fewer than 7 bytes
  makes \<open>newVersion\<close> panic wherever it would return a version.
\<close>

theorem newVersion_prerelease_label:
  "(newVersion a currentVersion commits firstVersionCreated = Inr (Some v) \<longrightarrow>
      (branch a \<noteq> defaultBranch a \<longrightarrow>
         7 \<le> length (revision a) \<and> pre v = take 7 (revision a)) \<and>
      (branch a = defaultBranch a \<longrightarrow>
         (if firstVersionCreated then v = currentVersion
          else pre v = '''' \<and>
               (v = IncMajor currentVersion \<or> v = IncMinor currentVersion
                \<or> v = IncPatch currentVersion))))
   \<and> (branch a \<noteq> defaultBranch a \<and> length (revision a) < 7 \<longrightarrow>
        newVersion a currentVersion commits firstVersionCreated =
          (if firstVersionCreated \<or> list_ex IsBreakingChange commits
              \<or> list_ex IsFeat commits \<or> list_ex IsFix commits
           then Inl SliceBoundsOutOfRange else Inr None))"
proof (cases firstVersionCreated)
  case True
  then show ?thesis
    by (auto simp: newVersion_first prereleaseOf_short
        split: sum.splits dest!: prereleaseOf_pre)
next
  case False
  then show ?thesis
    by (auto simp: newVersion_scan prereleaseOf_short
        IncMajor_fields IncMinor_fields IncPatch_fields
        split: sum.splits if_splits dest!: prereleaseOf_pre)
qed

theorem newVersion_prerelease_label_witness:
  "newVersion (exampleAction (exampleClient [] []) ''feature-1'') v123
     [conv ''fix'' ''foo'' False] False
     = Inr (Some (withOriginal (IncPatch v123) ((IncPatch v123)\<lparr>pre := ''abcdef1''\<rparr>)))
   \<and> pre (withOriginal (IncPatch v123) ((IncPatch v123)\<lparr>pre := ''abcdef1''\<rparr>)) = ''abcdef1''
   \<and> newVersion (exampleAction (exampleClient [] []) ''main'') v123
       [conv ''fix'' ''foo'' False] False = Inr (Some (IncPatch v123))
   \<and> pre (IncPatch v123) = ''''
   \<and> newVersion ((exampleAction (exampleClient [] []) ''feature-1'')\<lparr>revision := ''abcdef''\<rparr>)
       v123 [conv ''fix'' ''foo'' False] False = Inl SliceBoundsOutOfRange"
proof -
  let ?v = "withOriginal (IncPatch v123) ((IncPatch v123)\<lparr>pre := ''abcdef1''\<rparr>)"
  have r1: "newVersion (exampleAction (exampleClient [] []) ''feature-1'') v123
     [conv ''fix'' ''foo'' False] False = Inr (Some ?v)"
    by (simp add: newVersion_scan example_kinds exampleAction_fields prereleaseOf_def
        SetPrerelease_def example_validPrerelease)
  have r2: "newVersion (exampleAction (exampleClient [] []) ''main'') v123
       [conv ''fix'' ''foo'' False] False = Inr (Some (IncPatch v123))"
    by (simp add: newVersion_scan example_kinds exampleAction_fields)
  show ?thesis
    using newVersion_prerelease_label
            [of "exampleAction (exampleClient [] []) ''feature-1''" v123
                "[conv ''fix'' ''foo'' False]" False ?v]
          newVersion_prerelease_label
            [of "exampleAction (exampleClient [] []) ''main''" v123
                "[conv ''fix'' ''foo'' False]" False "IncPatch v123"]
          newVersion_prerelease_label
            [of "(exampleAction (exampleClient [] []) ''feature-1'')\<lparr>revision := ''abcdef''\<rparr>"
                v123 "[conv ''fix'' ''foo'' False]" False undefined]
          r1 r2
    by (simp add: exampleAction_def example_kinds)
qed


section \<open>The scope filter\<close>

text \<open>
  Claim C5. For every component and every list of commits,
  \<open>convertAndFilterCommitsForComponent\<close> keeps, in their order, exactly the parsed
  commits whose scope is present and equal to the component under \<open>strings.EqualFold\<close>;
  a commit without a scope is dropped. The scope \<open>Foo\<close> matches the component \<open>foo\<close>,
  and on ASCII strings \<open>EqualFold\<close> is equality up to the case of the letters.
\<close>

theorem convertAndFilter_scope:
  "convertAndFilterCommitsForComponent lib c commits =
     filter (\<lambda>r. case Scope r of None \<Rightarrow> False | Some scope \<Rightarrow> EqualFold lib scope c)
       (List.map_filter (\<lambda>commit. parseConventional lib (Message commit)) commits)
   \<and> EqualFold lib ''Foo'' ''foo''
   \<and> (list_all isASCII s \<and> list_all isASCII t \<longrightarrow>
        EqualFold lib s t = (map lowerByte s = map lowerByte t))"
proof -
  have "convertAndFilterCommitsForComponent lib c commits =
     filter (\<lambda>r. case Scope r of None \<Rightarrow> False | Some scope \<Rightarrow> EqualFold lib scope c)
       (List.map_filter (\<lambda>commit. parseConventional lib (Message commit)) commits)"
    by (induction commits) (auto split: option.splits)
  moreover have "EqualFold lib ''Foo'' ''foo''"
    by (simp add: isASCII_def isUpper_def)
  ultimately show ?thesis
    using EqualFold_ascii [of s t lib] by blast
qed

theorem convertAndFilter_scope_witness:
  "convertAndFilterCommitsForComponent exampleLib ''foo''
     [commitOf ''fix(foo): x'', commitOf ''no conventional commit'', commitOf ''feat(Foo)!: x'']
   = [conv ''fix'' ''foo'' False, conv ''feat'' ''Foo'' True]
   \<and> list_all isASCII ''Foo'' \<and> list_all isASCII ''foo''
   \<and> map lowerByte ''Foo'' = map lowerByte ''foo''"
proof -
  have ascii: "list_all isASCII ''Foo''" "list_all isASCII ''foo''"
    by (simp_all add: isASCII_def)
  have "map lowerByte ''Foo'' = map lowerByte ''foo''"
    using convertAndFilter_scope
      [of exampleLib "''foo''"
          "[commitOf ''fix(foo): x'', commitOf ''no conventional commit'',
            commitOf ''feat(Foo)!: x'']" "''Foo''" "''foo''"] ascii
    by blast
  with ascii example_convert_breaking show ?thesis
    by blast
qed


section \<open>The latest release\<close>

text \<open>
  The releases that \<open>filterAndSortReleasesForComponent\<close> returns are the matching
  ones in descending order of the second of publication, so the first of them is the
  latest matching release of the specification, and there is none exactly when no
  release matches. For more than 12 matching releases this rests on what
  \<open>sort.Slice\<close> promises of the quicksort.
\<close>

lemma insertLeft_set: "set (insertLeft x ys) = insert x (set ys)"
proof -
  have "set (takeWhile (\<lambda>y. publishedUnix x > publishedUnix y) (rev ys))
        \<union> set (dropWhile (\<lambda>y. publishedUnix x > publishedUnix y) (rev ys)) = set (rev ys)"
    by (metis set_append takeWhile_dropWhile_id)
  then show ?thesis
    by (auto simp: insertLeft_def Let_def)
qed

lemma ascending_dropWhile:
  "sorted_wrt (\<lambda>a b. publishedUnix a \<le> publishedUnix b) zs \<Longrightarrow>
   \<forall>y \<in> set (dropWhile (\<lambda>y. publishedUnix x > publishedUnix y) zs).
     publishedUnix x \<le> publishedUnix y"
  by (induction zs) auto

lemma ascending_parts:
  "sorted_wrt (\<lambda>a b. publishedUnix a \<le> publishedUnix b) zs \<Longrightarrow>
   sorted_wrt (\<lambda>a b. publishedUnix a \<le> publishedUnix b) (takeWhile P zs) \<and>
   sorted_wrt (\<lambda>a b. publishedUnix a \<le> publishedUnix b) (dropWhile P zs)"
  by (induction zs) (auto dest: set_takeWhileD)

lemma insertLeft_descending:
  assumes "sorted_wrt (\<lambda>a b. publishedUnix b \<le> publishedUnix a) ys"
  shows "sorted_wrt (\<lambda>a b. publishedUnix b \<le> publishedUnix a) (insertLeft x ys)"
proof -
  let ?P = "\<lambda>y. publishedUnix x > publishedUnix y"
  have asc: "sorted_wrt (\<lambda>a b. publishedUnix a \<le> publishedUnix b) (rev ys)"
    using assms by (simp add: sorted_wrt_rev)
  have kept: "\<forall>y \<in> set (dropWhile ?P (rev ys)). publishedUnix x \<le> publishedUnix y"
    using asc by (rule ascending_dropWhile)
  have passed: "\<forall>y \<in> set (takeWhile ?P (rev ys)). publishedUnix y < publishedUnix x"
    by (auto dest: set_takeWhileD)
  have s1: "sorted_wrt (\<lambda>a b. publishedUnix b \<le> publishedUnix a)
              (rev (dropWhile ?P (rev ys)))"
    using ascending_parts [OF asc, of ?P] by (simp add: sorted_wrt_rev)
  have s2: "sorted_wrt (\<lambda>a b. publishedUnix b \<le> publishedUnix a)
              (rev (takeWhile ?P (rev ys)))"
    using ascending_parts [OF asc, of ?P] by (simp add: sorted_wrt_rev)
  show ?thesis
    using kept passed s1 s2
    by (fastforce simp: insertLeft_def Let_def sorted_wrt_append)
qed

lemma foldl_insertLeft:
  "sorted_wrt (\<lambda>a b. publishedUnix b \<le> publishedUnix a) acc \<Longrightarrow>
   sorted_wrt (\<lambda>a b. publishedUnix b \<le> publishedUnix a)
     (foldl (\<lambda>sorted_part x. insertLeft x sorted_part) acc rs)
   \<and> set (foldl (\<lambda>sorted_part x. insertLeft x sorted_part) acc rs) = set acc \<union> set rs"
  by (induction rs arbitrary: acc) (auto simp: insertLeft_descending insertLeft_set)

lemma insertionSort_descending:
  "sorted_wrt (\<lambda>a b. publishedUnix b \<le> publishedUnix a) (insertionSort rs)
   \<and> set (insertionSort rs) = set rs"
  using foldl_insertLeft [of "[]" rs] by (simp add: insertionSort_def)

lemma sortSlice_descending:
  assumes "\<And>rs. 12 < length rs \<Longrightarrow> sortsDescending lib rs"
  shows "sorted_wrt (\<lambda>a b. publishedUnix b \<le> publishedUnix a) (sortSlice lib rs)
         \<and> set (sortSlice lib rs) = set rs"
proof (cases "length rs \<le> 12")
  case True
  then show ?thesis
    by (simp add: sortSlice_def insertionSort_descending)
next
  case False
  then have "sortsDescending lib rs"
    by (intro assms) simp
  with False show ?thesis
    by (simp add: sortSlice_def sortsDescending_def)
qed

lemma example_sortsDescending: "sortsDescending exampleLib rs"
  by (simp add: sortsDescending_def exampleLib_def insertionSort_descending)

lemma filterAndSort_latest:
  assumes sort: "\<And>rs. 12 < length rs \<Longrightarrow> sortsDescending lib rs"
    and flt: "filterAndSortReleasesForComponent lib c releases = Inr existingReleases"
  shows "case existingReleases of
           [] \<Rightarrow> \<not> list_ex (matchesComponent lib c) releases
         | latestRelease # _ \<Rightarrow> latestMatching lib c releases latestRelease"
proof -
  let ?m = "filter (matchesComponent lib c) releases"
  have m: "?m = filter (\<lambda>release. HasPrefix (ToLower lib (TagName release))
                                     (getComponentPrefix lib c)) releases"
    by (simp add: matchesComponent_def [abs_def] getComponentPrefix_def)
  from flt have ex: "existingReleases = sortSlice lib ?m"
    by (auto simp: filterAndSortReleasesForComponent_def Let_def m split: if_splits)
  have sorted: "sorted_wrt (\<lambda>a b. publishedUnix b \<le> publishedUnix a) existingReleases"
    and same: "set existingReleases = set ?m"
    using sortSlice_descending [OF sort, of ?m] by (simp_all add: ex)
  show ?thesis
  proof (cases existingReleases)
    case Nil
    with same have "?m = []" by simp
    then have "\<not> list_ex (matchesComponent lib c) releases"
      by (simp add: list_ex_iff filter_empty_conv)
    with Nil show ?thesis by simp
  next
    case (Cons latestRelease others)
    with same have "latestRelease \<in> set ?m" by auto
    then have mem: "latestRelease \<in> set releases" "matchesComponent lib c latestRelease"
      by simp_all
    have "publishedUnix r \<le> publishedUnix latestRelease"
      if "r \<in> set releases" "matchesComponent lib c r" for r
    proof -
      from that have "r \<in> set existingReleases" by (simp add: same)
      with Cons sorted show ?thesis by auto
    qed
    with mem Cons show ?thesis
      by (auto simp: latestMatching_def list_all_iff)
  qed
qed


section \<open>The window of the commits\<close>

text \<open>
  Claim C6. When the releases were listed, the matching ones sorted and the version
  parsed, the two commits have committer times and every listing of commits returns,
  the run of \<open>GenerateVersion\<close> returns, and every listing of commits it made asked for
  the same window, at least one listing being made: the window ends one millisecond
  (1000000 nanoseconds) after the committer time of the current revision, and it starts
  at the start of the Unix epoch (time 0) when no release matches the component, and
  otherwise one second (1000000000 nanoseconds) after the committer time of the target
  commit of the first of the sorted releases, which is the latest matching release.
\<close>

theorem commit_window:
  assumes sort: "\<And>rs. 12 < length rs \<Longrightarrow> sortsDescending lib rs"
    and rel: "getAllReleases a tr = Some (Inr allReleases, tr1)"
    and flt: "filterAndSortReleasesForComponent lib (component a) allReleases
                = Inr existingReleases"
    and ver: "existingVersionOrNew lib (component a) existingReleases (initialVersion a)
                = Inr (existingVersion, firstVersionCreated)"
    and prev: "case existingReleases of
                 [] \<Rightarrow> True
               | latestRelease # _ \<Rightarrow>
                   GetCommit (client a) (owner a) (repository a) (TargetCommitish latestRelease)
                     = Inr (Some previousChangeTime)"
    and cur: "GetCommit (client a) (owner a) (repository a) (revision a)
                = Inr (Some currentChangeTime)"
    and list: "\<And>since until t.
                 \<exists>x t'. getNewCommits_loop a since until (branch a) 1 [] t = Some (x, t')"
  shows "(case existingReleases of
            [] \<Rightarrow> \<not> list_ex (matchesComponent lib (component a)) allReleases
          | latestRelease # _ \<Rightarrow> latestMatching lib (component a) allReleases latestRelease)
         \<and> (\<exists>result tr'.
               GenerateVersion lib a dryRun tr = Some (result, tr') \<and>
               set (commitWindows tr') =
                 insert (case existingReleases of
                           [] \<Rightarrow> 0
                         | _ # _ \<Rightarrow> previousChangeTime + 1000000000,
                         currentChangeTime + 1000000)
                   (set (commitWindows tr)))"
proof -
  obtain prevT tr2
    where p: "getPreviousChangeTime a existingReleases tr1 = (Inr prevT, tr2)"
      and pT: "prevT = (case existingReleases of [] \<Rightarrow> None | _ # _ \<Rightarrow> Some previousChangeTime)"
    using prev
    by (cases existingReleases) (auto simp: getPreviousChangeTime_def committerTime_Some)
  have w2: "commitWindows tr2 = commitWindows tr"
    using getAllReleases_trace [OF rel] getPreviousChangeTime_trace [OF p] by simp
  let ?tr3 = "tr2 @ [GetCommitCall (owner a) (repository a) (revision a)]"
  have c: "getCurrentChangeTime a tr2 = (Inr currentChangeTime, ?tr3)"
    by (simp add: getCurrentChangeTime_def committerTime_Some [OF cur])
  obtain x tr4
    where g: "getNewCommits a prevT (Time_Add currentChangeTime Millisecond) (branch a) ?tr3
                = Some (x, tr4)"
    using list [of "case prevT of None \<Rightarrow> startOfEpoch | Some t \<Rightarrow> Time_Add t Second"
        "Time_Add currentChangeTime Millisecond" ?tr3]
    by (cases prevT) (auto simp: getNewCommits_def)
  have w4: "set (commitWindows tr4) =
              insert (case existingReleases of
                        [] \<Rightarrow> 0
                      | _ # _ \<Rightarrow> previousChangeTime + 1000000000,
                      currentChangeTime + 1000000)
                (set (commitWindows tr))"
    using getNewCommits_trace [OF g] w2 pT
    by (cases existingReleases)
       (simp_all add: commitWindows_append Time_Add_def Second_def Millisecond_def
          startOfEpoch_def)
  have run: "\<exists>result tr'. GenerateVersion lib a dryRun tr = Some (result, tr')
               \<and> commitWindows tr' = commitWindows tr4"
  proof (cases x)
    case (Inl e)
    with g show ?thesis
      by (simp add: GenerateVersion_def rel flt ver p c)
  next
    case (Inr newCommits)
    with g have g': "getNewCommits a prevT (Time_Add currentChangeTime Millisecond) (branch a)
                       ?tr3 = Some (Inr newCommits, tr4)"
      by simp
    show ?thesis
      unfolding GenerateVersion_reach [OF rel flt ver p c g']
      by (auto split: sum.splits option.splits prod.splits dest: createGitHubRelease_trace)
  qed
  from run w4 filterAndSort_latest [OF sort flt] show ?thesis
    by auto
qed

theorem commit_window_witness:
  "latestMatching exampleLib ''foo'' [releaseTagged ''foo-1.2.3'', laterRelease] laterRelease
   \<and> (\<exists>result tr'.
        GenerateVersion exampleLib
          (exampleAction
             (exampleClient [releaseTagged ''foo-1.2.3'', laterRelease]
                [commitOf ''fix(foo): x'', commitOf ''feat(bar): x''])
             ''main'')
          True [] = Some (result, tr')
        \<and> set (commitWindows tr') = {(1500000000000 + 1000000000, 2000000000000 + 1000000)})
   \<and> (\<exists>result tr'.
        GenerateVersion exampleLib
          (exampleAction
             (exampleClient []
                [commitOf ''fix(foo): x'', commitOf ''no conventional commit'',
                 commitOf ''feat(Foo)!: x''])
             ''main'')
          True [] = Some (result, tr')
        \<and> set (commitWindows tr') = {(0, 2000000000000 + 1000000)})"
proof -
  let ?a = "exampleAction
        (exampleClient [releaseTagged ''foo-1.2.3'', laterRelease]
           [commitOf ''fix(foo): x'', commitOf ''feat(bar): x''])
        ''main''"
  let ?b = "exampleAction
        (exampleClient []
           [commitOf ''fix(foo): x'', commitOf ''no conventional commit'',
            commitOf ''feat(Foo)!: x''])
        ''main''"
  have a2: "filterAndSortReleasesForComponent exampleLib (component ?a)
              [releaseTagged ''foo-1.2.3'', laterRelease]
              = Inr [laterRelease, releaseTagged ''foo-1.2.3'']"
    by (simp add: exampleAction_fields example_filter_two)
  have a3: "existingVersionOrNew exampleLib (component ?a)
              [laterRelease, releaseTagged ''foo-1.2.3''] (initialVersion ?a)
              = Inr (v130, False)"
    by (simp add: exampleAction_fields example_existing_later)
  have a4: "case [laterRelease, releaseTagged ''foo-1.2.3''] of
              [] \<Rightarrow> True
            | latestRelease # _ \<Rightarrow>
                GetCommit (client ?a) (owner ?a) (repository ?a) (TargetCommitish latestRelease)
                  = Inr (Some 1500000000000)"
    by (simp add: exampleAction_fields example_GetCommit_later laterRelease_def)
  have a5: "GetCommit (client ?a) (owner ?a) (repository ?a) (revision ?a)
              = Inr (Some 2000000000000)"
    by (simp add: exampleAction_fields example_GetCommit_revision)
  have a6: "\<exists>x t'. getNewCommits_loop ?a since until (branch ?a) 1 [] t = Some (x, t')"
    for since until t
    by (rule example_lists)
  have b2: "filterAndSortReleasesForComponent exampleLib (component ?b) [] = Inr []"
    by (simp add: exampleAction_fields example_filter_none)
  have b3: "existingVersionOrNew exampleLib (component ?b) [] (initialVersion ?b)
              = Inr (v100, True)"
    by (simp add: exampleAction_fields example_existing_none)
  have b4: "case [] :: RepositoryRelease list of
              [] \<Rightarrow> True
            | latestRelease # _ \<Rightarrow>
                GetCommit (client ?b) (owner ?b) (repository ?b) (TargetCommitish latestRelease)
                  = Inr (Some 0)"
    by simp
  have b5: "GetCommit (client ?b) (owner ?b) (repository ?b) (revision ?b)
              = Inr (Some 2000000000000)"
    by (simp add: exampleAction_fields example_GetCommit_revision)
  have b6: "\<exists>x t'. getNewCommits_loop ?b since until (branch ?b) 1 [] t = Some (x, t')"
    for since until t
    by (rule example_lists)
  show ?thesis
    using commit_window
        [where dryRun = True and tr = "[]",
         OF example_sortsDescending example_getAllReleases_one a2 a3 a4 a5 a6]
      commit_window
        [where dryRun = True and tr = "[]",
         OF example_sortsDescending example_getAllReleases_none b2 b3 b4 b5 b6]
    by (simp add: exampleAction_fields)
qed


section \<open>A version string that does not parse\<close>

text \<open>
  Claim C7, as the specification states it: if the configured initial version fails to
  parse as a semantic version, the invocation aborts, no version is computed and no
  release is created. The code parses the initial version only when no release matches
  the component. With the initial version \<open>one\<close>, which is not a semantic version, and
  the release \<open>foo-1.2.3\<close> on the remote, the run after a \<open>fix\<close> of the component
  returns the version \<open>1.2.4\<close> and asks the remote for the release \<open>foo-1.2.4\<close>.
\<close>

theorem malformed_version_counterexample:
  "semverNewVersion exampleLib ''one'' = None
   \<and> initialVersion
       ((exampleAction
           (exampleClient [releaseTagged ''foo-1.2.3'']
              [commitOf ''fix(foo): x'', commitOf ''feat(bar): x''])
           ''main'')\<lparr>initialVersion := ''one''\<rparr>) = ''one''
   \<and> map_option fst
       (GenerateVersion exampleLib
          ((exampleAction
              (exampleClient [releaseTagged ''foo-1.2.3'']
                 [commitOf ''fix(foo): x'', commitOf ''feat(bar): x''])
              ''main'')\<lparr>initialVersion := ''one''\<rparr>)
          False [])
     = Some (Inr (Some (IncPatch v123)))
   \<and> map_option (map TagName \<circ> createdReleases \<circ> snd)
       (GenerateVersion exampleLib
          ((exampleAction
              (exampleClient [releaseTagged ''foo-1.2.3'']
                 [commitOf ''fix(foo): x'', commitOf ''feat(bar): x''])
              ''main'')\<lparr>initialVersion := ''one''\<rparr>)
          False [])
     = Some [''foo-1.2.4'']"
  by code_simp

text \<open>
  Claim C7, amended. The string that the run parses is the configured initial version
  when no release matches the component, and otherwise the tag of the first of the
  sorted releases, which is the latest matching release, without the component prefix.
  When that string is not a semantic version, \<open>existingVersionOrNew\<close> panics and
  \<open>GenerateVersion\<close> ends with that panic right after the releases were listed: it
  returns no version and asks the remote for no release. An initial version that does
  not parse is not noticed while a release matches.
\<close>

theorem malformed_version_aborts:
  assumes sort: "\<And>rs. 12 < length rs \<Longrightarrow> sortsDescending lib rs"
    and rel: "getAllReleases a tr = Some (Inr allReleases, tr1)"
    and flt: "filterAndSortReleasesForComponent lib (component a) allReleases
                = Inr existingReleases"
    and bad: "semverNewVersion lib
                (case existingReleases of
                   [] \<Rightarrow> initialVersion a
                 | latestRelease # _ \<Rightarrow>
                     TrimPrefix (TagName latestRelease) (getComponentPrefix lib (component a)))
              = None"
  shows "(case existingReleases of
            [] \<Rightarrow> \<not> list_ex (matchesComponent lib (component a)) allReleases
          | latestRelease # _ \<Rightarrow> latestMatching lib (component a) allReleases latestRelease)
         \<and> existingVersionOrNew lib (component a) existingReleases (initialVersion a)
             = Inl ErrInvalidSemVer
         \<and> GenerateVersion lib a dryRun tr = Some (Inl ErrInvalidSemVer, tr1)
         \<and> createdReleases tr1 = createdReleases tr"
proof -
  have panics: "existingVersionOrNew lib (component a) existingReleases (initialVersion a)
           = Inl ErrInvalidSemVer"
    using bad
    by (cases existingReleases) (simp_all add: existingVersionOrNew_def MustParse_def)
  then have "GenerateVersion lib a dryRun tr = Some (Inl ErrInvalidSemVer, tr1)"
    by (simp add: GenerateVersion_def rel flt)
  with panics getAllReleases_trace [OF rel] filterAndSort_latest [OF sort flt]
  show ?thesis by simp
qed

theorem malformed_version_aborts_witness:
  "latestMatching exampleLib ''foo''
     [releaseTagged ''foo-1.2.3'', laterRelease\<lparr>TagName := ''foo-bogus''\<rparr>]
     (laterRelease\<lparr>TagName := ''foo-bogus''\<rparr>)
   \<and> GenerateVersion exampleLib
       (exampleAction
          (exampleClient [releaseTagged ''foo-1.2.3'', laterRelease\<lparr>TagName := ''foo-bogus''\<rparr>]
             [commitOf ''fix(foo): x''])
          ''main'')
       False [] =
     Some (Inl ErrInvalidSemVer, [ListReleasesCall ''o'' ''r'' 1, ListReleasesCall ''o'' ''r'' 2])
   \<and> GenerateVersion exampleLib
       ((exampleAction (exampleClient [] [commitOf ''fix(foo): x'']) ''main'')
          \<lparr>initialVersion := ''one''\<rparr>)
       False [] =
     Some (Inl ErrInvalidSemVer, [ListReleasesCall ''o'' ''r'' 1])"
proof -
  let ?bogus = "laterRelease\<lparr>TagName := ''foo-bogus''\<rparr>"
  let ?a = "exampleAction
              (exampleClient [releaseTagged ''foo-1.2.3'', ?bogus] [commitOf ''fix(foo): x''])
              ''main''"
  let ?b = "(exampleAction (exampleClient [] [commitOf ''fix(foo): x'']) ''main'')
              \<lparr>initialVersion := ''one''\<rparr>"
  have a2: "filterAndSortReleasesForComponent exampleLib (component ?a)
              [releaseTagged ''foo-1.2.3'', ?bogus] = Inr [?bogus, releaseTagged ''foo-1.2.3'']"
    by (simp add: filterAndSortReleasesForComponent_def sortSlice_def insertionSort_def
        insertLeft_def publishedUnix_def Unix_def releaseTagged_def laterRelease_def
        example_ToLower getComponentPrefix_def HasPrefix_def exampleAction_fields)
  have a3: "semverNewVersion exampleLib
              (case [?bogus, releaseTagged ''foo-1.2.3''] of
                 [] \<Rightarrow> initialVersion ?a
               | latestRelease # _ \<Rightarrow>
                   TrimPrefix (TagName latestRelease)
                     (getComponentPrefix exampleLib (component ?a))) = None"
    by (simp add: exampleAction_fields TrimPrefix_def HasPrefix_def getComponentPrefix_def
        example_ToLower laterRelease_def exampleLib_def)
  have b1: "getAllReleases ?b [] = Some (Inr [], [] @ [ListReleasesCall ''o'' ''r'' 1])"
    unfolding getAllReleases_def
    by (subst getAllReleases_loop.simps) (simp add: exampleAction_def exampleClient_def)
  have b2: "filterAndSortReleasesForComponent exampleLib (component ?b) [] = Inr []"
    by (simp add: example_filter_none exampleAction_def)
  have b3: "semverNewVersion exampleLib
              (case [] :: RepositoryRelease list of
                 [] \<Rightarrow> initialVersion ?b
               | latestRelease # _ \<Rightarrow>
                   TrimPrefix (TagName latestRelease)
                     (getComponentPrefix exampleLib (component ?b))) = None"
    by (simp add: exampleLib_def)
  show ?thesis
    using malformed_version_aborts
        [where dryRun = False and tr = "[]",
         OF example_sortsDescending example_getAllReleases_one a2 a3]
      malformed_version_aborts
        [where dryRun = False, OF example_sortsDescending b1 b2 b3]
    by (simp add: exampleAction_fields)
qed


section \<open>The changelog entry\<close>

lemma formatCommitChangelogEntry_empty_SHA:
  "formatCommitChangelogEntry
     \<lparr>SHA = '''', HTMLURL = ''u'', Message = ''fix(foo): x'', AuthorLogin = ''me''\<rparr>
     (conv ''fix'' ''foo'' False)
   = Inr (''* [u](x) (@me)'' @ [CHR 0x0A])"
  by (simp add: formatCommitChangelogEntry_def conv_def)

text \<open>
  Claim C9, as the specification states it, does not hold of the code: a commit whose
  SHA is not empty but shorter than 7 bytes has no entry at all, the slice of the SHA
  panics; the entry of a longer SHA is not the string of the specification, which has
  neither the backquotes nor the line feed; and the entry of a commit with an empty SHA
  has the description where the target of the link belongs.
\<close>

theorem changelog_entry_counterexample:
  "formatCommitChangelogEntry
     \<lparr>SHA = ''abc'', HTMLURL = ''u'', Message = ''fix(foo): x'', AuthorLogin = ''me''\<rparr>
     (conv ''fix'' ''foo'' False)
   = Inl SliceBoundsOutOfRange
   \<and> formatCommitChangelogEntry
       \<lparr>SHA = ''abc'', HTMLURL = ''u'', Message = ''fix(foo): x'', AuthorLogin = ''me''\<rparr>
       (conv ''fix'' ''foo'' False)
     \<noteq> Inr (specChangelogEntry
              \<lparr>SHA = ''abc'', HTMLURL = ''u'', Message = ''fix(foo): x'', AuthorLogin = ''me''\<rparr>
              (conv ''fix'' ''foo'' False))
   \<and> formatCommitChangelogEntry (commitOf ''fix(foo): x'') (conv ''fix'' ''foo'' False)
     \<noteq> Inr (specChangelogEntry (commitOf ''fix(foo): x'') (conv ''fix'' ''foo'' False))
   \<and> formatCommitChangelogEntry
       \<lparr>SHA = '''', HTMLURL = ''u'', Message = ''fix(foo): x'', AuthorLogin = ''me''\<rparr>
       (conv ''fix'' ''foo'' False)
     \<noteq> Inr (specChangelogEntry
              \<lparr>SHA = '''', HTMLURL = ''u'', Message = ''fix(foo): x'', AuthorLogin = ''me''\<rparr>
              (conv ''fix'' ''foo'' False))"
  by (simp add: formatCommitChangelogEntry_def specChangelogEntry_def commitOf_def conv_def)

text \<open>
  Claim C9, amended. For a commit whose SHA has at least 7 bytes the entry is the line
  \<open>* [`shortSHA`](url) description (@author)\<close>: the first 7 bytes of the SHA between
  backquotes as the text of a link to the URL of the commit, the description, the login
  of the author, and a line feed at the end. A SHA that is not empty and shorter than 7
  bytes makes \<open>formatCommitChangelogEntry\<close> panic.
\<close>

theorem changelog_entry:
  "(7 \<le> length (SHA commit) \<longrightarrow>
      formatCommitChangelogEntry commit conventionalCommit =
        Inr (''* [`'' @ take 7 (SHA commit) @ ''`]('' @ HTMLURL commit @ '') ''
             @ Description conventionalCommit @ '' (@'' @ AuthorLogin commit @ '')''
             @ [CHR 0x0A]))
   \<and> (SHA commit \<noteq> '''' \<and> length (SHA commit) < 7 \<longrightarrow>
        formatCommitChangelogEntry commit conventionalCommit = Inl SliceBoundsOutOfRange)"
  by (auto simp: formatCommitChangelogEntry_def)

theorem changelog_entry_witness:
  "formatCommitChangelogEntry (commitOf ''fix(foo): x'') (conv ''fix'' ''foo'' False)
     = Inr (''* [`abcdef1`](u) x (@me)'' @ [CHR 0x0A])
   \<and> formatCommitChangelogEntry
       \<lparr>SHA = ''abc'', HTMLURL = ''u'', Message = ''fix(foo): x'', AuthorLogin = ''me''\<rparr>
       (conv ''fix'' ''foo'' False)
     = Inl SliceBoundsOutOfRange"
  using changelog_entry [of "commitOf ''fix(foo): x''" "conv ''fix'' ''foo'' False"]
    changelog_entry
      [of "\<lparr>SHA = ''abc'', HTMLURL = ''u'', Message = ''fix(foo): x'', AuthorLogin = ''me''\<rparr>"
          "conv ''fix'' ''foo'' False"]
  by (simp add: commitOf_def conv_def)


section \<open>The dry run\<close>

lemma example_notes_short:
  "generateReleaseNotes exampleLib (exampleAction cl br) [shortCommit, commitOf ''feat(bar): x'']
     = Inl SliceBoundsOutOfRange"
  by (simp add: generateReleaseNotes_def exampleLib_def shortCommit_def conv_def
      exampleAction_fields isASCII_def isUpper_def writeEntry_def IsBreakingChange_def
      IsFeat_def IsFix_def formatCommitChangelogEntry_def)

text \<open>
  Claim C10. In a run of \<open>GenerateVersion\<close> that has listed the releases and the
  commits, parsed the version and found the two commit times, the dry run returns
  exactly what \<open>newVersion\<close> computes, a version or nil or its panic, with the trace of
  the listings: no release notes are generated (the result does not depend on them) and
  no release is requested from the remote. The run that is not a dry run computes the
  same: it returns the same nil or panic, and for a version it creates the release and
  returns that version, or the panic of creating the release.
\<close>

theorem dry_run_creates_no_release:
  assumes "getAllReleases a tr = Some (Inr allReleases, tr1)"
    and "filterAndSortReleasesForComponent lib (component a) allReleases = Inr existingReleases"
    and "existingVersionOrNew lib (component a) existingReleases (initialVersion a) =
           Inr (existingVersion, firstVersionCreated)"
    and "getPreviousChangeTime a existingReleases tr1 = (Inr previousChangeTime, tr2)"
    and "getCurrentChangeTime a tr2 = (Inr currentChangeTime, tr3)"
    and "getNewCommits a previousChangeTime (Time_Add currentChangeTime Millisecond) (branch a) tr3
           = Some (Inr newCommits, tr4)"
  shows "GenerateVersion lib a True tr =
           Some (newVersion a existingVersion
                   (convertAndFilterCommitsForComponent lib (component a) newCommits)
                   firstVersionCreated, tr4)
         \<and> createdReleases tr4 = createdReleases tr
         \<and> GenerateVersion lib a False tr =
             (case newVersion a existingVersion
                     (convertAndFilterCommitsForComponent lib (component a) newCommits)
                     firstVersionCreated of
                Inr (Some v) \<Rightarrow>
                  (case createGitHubRelease lib a v newCommits tr4 of
                     (Inl p, tr5) \<Rightarrow> Some (Inl p, tr5)
                   | (Inr _, tr5) \<Rightarrow> Some (Inr (Some v), tr5))
              | Inr None \<Rightarrow> Some (Inr None, tr4)
              | Inl p \<Rightarrow> Some (Inl p, tr4))"
proof -
  have "createdReleases tr4 = createdReleases tr"
    using getAllReleases_trace [OF assms(1)] getPreviousChangeTime_trace [OF assms(4)]
      getCurrentChangeTime_trace [OF assms(5)] getNewCommits_trace [OF assms(6)]
    by simp
  then show ?thesis
    by (simp add: GenerateVersion_reach [OF assms] split: sum.splits option.splits)
qed

theorem dry_run_creates_no_release_witness:
  "GenerateVersion exampleLib
     (exampleAction
        (exampleClient [releaseTagged ''foo-1.2.3''] [shortCommit, commitOf ''feat(bar): x''])
        ''main'')
     True [] =
   Some (Inr (Some (IncPatch v123)),
     [ListReleasesCall ''o'' ''r'' 1, ListReleasesCall ''o'' ''r'' 2,
      GetCommitCall ''o'' ''r'' ''0123456789'', GetCommitCall ''o'' ''r'' ''abcdef1234'',
      ListCommitsCall ''o'' ''r'' 1001000000000 2000001000000 ''main'' 1,
      ListCommitsCall ''o'' ''r'' 1001000000000 2000001000000 ''main'' 2])
   \<and> GenerateVersion exampleLib
       (exampleAction
          (exampleClient [releaseTagged ''foo-1.2.3''] [shortCommit, commitOf ''feat(bar): x''])
          ''main'')
       False [] =
     Some (Inl SliceBoundsOutOfRange,
       [ListReleasesCall ''o'' ''r'' 1, ListReleasesCall ''o'' ''r'' 2,
        GetCommitCall ''o'' ''r'' ''0123456789'', GetCommitCall ''o'' ''r'' ''abcdef1234'',
        ListCommitsCall ''o'' ''r'' 1001000000000 2000001000000 ''main'' 1,
        ListCommitsCall ''o'' ''r'' 1001000000000 2000001000000 ''main'' 2])
   \<and> createdReleases
       [ListReleasesCall ''o'' ''r'' 1, ListReleasesCall ''o'' ''r'' 2,
        GetCommitCall ''o'' ''r'' ''0123456789'', GetCommitCall ''o'' ''r'' ''abcdef1234'',
        ListCommitsCall ''o'' ''r'' 1001000000000 2000001000000 ''main'' 1,
        ListCommitsCall ''o'' ''r'' 1001000000000 2000001000000 ''main'' 2] = []"
proof -
  let ?cs = "[shortCommit, commitOf ''feat(bar): x'']"
  let ?a = "exampleAction (exampleClient [releaseTagged ''foo-1.2.3''] ?cs) ''main''"
  have h2: "filterAndSortReleasesForComponent exampleLib (component ?a)
              [releaseTagged ''foo-1.2.3''] = Inr [releaseTagged ''foo-1.2.3'']"
    by (simp add: exampleAction_fields example_filter_one)
  have h3: "existingVersionOrNew exampleLib (component ?a) [releaseTagged ''foo-1.2.3'']
              (initialVersion ?a) = Inr (v123, False)"
    by (simp add: exampleAction_fields example_existing_one)
  have h6: "getNewCommits ?a (Some 1000000000000) (Time_Add 2000000000000 Millisecond)
              (branch ?a)
              ((([] @ [ListReleasesCall ''o'' ''r'' 1, ListReleasesCall ''o'' ''r'' 2])
                 @ [GetCommitCall ''o'' ''r'' ''0123456789''])
                 @ [GetCommitCall ''o'' ''r'' ''abcdef1234'']) =
            Some (Inr ?cs,
              [ListReleasesCall ''o'' ''r'' 1, ListReleasesCall ''o'' ''r'' 2,
               GetCommitCall ''o'' ''r'' ''0123456789'', GetCommitCall ''o'' ''r'' ''abcdef1234'',
               ListCommitsCall ''o'' ''r'' 1001000000000 2000001000000 ''main'' 1,
               ListCommitsCall ''o'' ''r'' 1001000000000 2000001000000 ''main'' 2])"
    by (simp add: example_getNewCommits_later exampleAction_fields Time_Add_def Millisecond_def)
  have cs: "convertAndFilterCommitsForComponent exampleLib (component ?a) ?cs
              = [conv ''fix'' ''foo'' False]"
    by (simp add: exampleLib_def shortCommit_def commitOf_def conv_def isASCII_def isUpper_def
        exampleAction_fields)
  have new: "newVersion ?a v123 [conv ''fix'' ''foo'' False] False = Inr (Some (IncPatch v123))"
    by (simp add: newVersion_scan example_kinds exampleAction_fields)
  have fails: "createGitHubRelease exampleLib ?a (IncPatch v123) ?cs tr4
                 = (Inl SliceBoundsOutOfRange, tr4)" for tr4
    by (simp add: createGitHubRelease_def Let_def example_notes_short)
  show ?thesis
    using dry_run_creates_no_release
      [OF example_getAllReleases_one h2 h3 example_getPreviousChangeTime_one
          example_getCurrentChangeTime h6]
    by (simp add: cs new fails del: convertAndFilterCommitsForComponent.simps)
qed


section \<open>The scenarios of the specification\<close>

text \<open>
  The versions of the scenarios, printed: after \<open>1.2.3\<close> a \<open>fix\<close> gives \<open>1.2.4\<close>, a
  \<open>feat\<close> gives \<open>1.3.0\<close>, a breaking change next to a \<open>fix\<close> gives \<open>2.0.0\<close>, and a
  \<open>fix\<close> on the branch \<open>feature-1\<close> at revision \<open>abcdef1234\<close> gives
  \<open>1.2.4-abcdef1\<close>.
\<close>

lemma scenario_versions:
  "Version_String (IncPatch v123) = ''1.2.4''"
  "Version_String (IncMinor v123) = ''1.3.0''"
  "Version_String (IncMajor v123) = ''2.0.0''"
  by code_simp+

lemma scenario_major_dominates:
  "map_sum id (map_option Version_String)
     (newVersion (exampleAction (exampleClient [] []) ''main'') v123
        [conv ''fix'' ''foo'' False, conv ''feat'' ''foo'' True] False)
   = Inr (Some ''2.0.0'')"
  by code_simp

lemma scenario_prerelease:
  "map_sum id (map_option Version_String)
     (newVersion (exampleAction (exampleClient [] []) ''feature-1'') v123
        [conv ''fix'' ''foo'' False] False)
   = Inr (Some ''1.2.4-abcdef1'')"
  by code_simp

text \<open>
  The patch increment of a version that carries a prerelease label is the version
  without the label: after the release \<open>1.2.3-abcdef1\<close> a \<open>fix\<close> gives \<open>1.2.3\<close>.
\<close>

lemma IncPatch_of_prerelease:
  "IncPatch (v123\<lparr>pre := ''abcdef1'', original := ''1.2.3-abcdef1''\<rparr>)
   = \<lparr>major = 1, minor = 2, patch = 3, pre = '''', metadata = '''', original = ''1.2.3''\<rparr>"
  by code_simp

text \<open>
  The run after the release \<open>foo-1.2.3\<close> with a \<open>fix\<close> of the component, not as a dry
  run: it returns \<open>1.2.4\<close> and asks the remote for the release \<open>foo-1.2.4\<close> of the
  revision.
\<close>

lemma example_patch_real_run:
  "(case GenerateVersion exampleLib
       (exampleAction
          (exampleClient [releaseTagged ''foo-1.2.3'']
             [commitOf ''fix(foo): x'', commitOf ''feat(bar): x''])
          ''main'')
       False [] of
      Some (Inr (Some v), tr) \<Rightarrow>
        Version_String v = ''1.2.4'' \<and>
        map (\<lambda>r. (TagName r, Name r, TargetCommitish r, Prerelease r)) (createdReleases tr)
          = [(''foo-1.2.4'', ''foo: 1.2.4'', ''abcdef1234'', False)]
    | _ \<Rightarrow> False)"
  by code_simp

end
